theory Spec2Isabelle
  imports Main "HOL-Library.Sublist" "HOL-Library.AList"
begin

section \<open>Python string operations used by nix-channels.py\<close>

text \<open>
  Strings are byte strings (\<open>char list\<close>). The functions below are the Python
  built-ins the script calls, with the semantics of CPython.
\<close>

definition LF :: char where "LF = CHR 0x0A"
definition CR :: char where "CR = CHR 0x0D"

text \<open>\<open>sub in s\<close> on strings.\<close>

fun contains :: "string \<Rightarrow> string \<Rightarrow> bool" where
  "contains sub [] = (sub = [])"
| "contains sub (c # cs) = (prefix sub (c # cs) \<or> contains sub cs)"

text \<open>\<open>s.endswith(suf)\<close>.\<close>

definition endswith :: "string \<Rightarrow> string \<Rightarrow> bool" where
  "endswith s suf = suffix suf s"

text \<open>
  \<open>s.replace(old, new)\<close>: every non-overlapping occurrence of \<open>old\<close>, found left
  to right, is replaced. \<open>repl\<close> is the scan for a non-empty \<open>old\<close>; for the empty
  \<open>old\<close> Python inserts \<open>new\<close> before every character and at the end.
\<close>

function repl :: "string \<Rightarrow> string \<Rightarrow> string \<Rightarrow> string" where
  "repl old new [] = []"
| "repl old new (c # cs) =
     (if old \<noteq> [] \<and> prefix old (c # cs)
      then new @ repl old new (drop (length old) (c # cs))
      else c # repl old new cs)"
  by pat_completeness auto
termination
  by (relation "measure (\<lambda>(old, new, s). length s)") auto

definition str_replace :: "string \<Rightarrow> string \<Rightarrow> string \<Rightarrow> string" where
  "str_replace old new s =
     (if old = [] then new @ concat (map (\<lambda>c. c # new) s) else repl old new s)"

text \<open>\<open>s.split(sep)\<close> for a non-empty separator, and \<open>sep.join(pieces)\<close>.\<close>

function str_split :: "string \<Rightarrow> string \<Rightarrow> string list" where
  "str_split sep [] = [[]]"
| "str_split sep (c # cs) =
     (if sep \<noteq> [] \<and> prefix sep (c # cs)
      then [] # str_split sep (drop (length sep) (c # cs))
      else (case str_split sep cs of
              p # ps \<Rightarrow> (c # p) # ps
            | [] \<Rightarrow> [[c]]))"
  by pat_completeness auto
termination
  by (relation "measure (\<lambda>(sep, s). length s)") auto

fun join :: "string \<Rightarrow> string list \<Rightarrow> string" where
  "join sep [] = []"
| "join sep [p] = p"
| "join sep (p # q # ps) = p @ sep @ join sep (q # ps)"

text \<open>\<open>s.split(sep, 1)\<close>: one piece when \<open>sep\<close> does not occur, two otherwise.\<close>

fun split_once :: "string \<Rightarrow> string \<Rightarrow> string list" where
  "split_once sep [] = [[]]"
| "split_once sep (c # cs) =
     (if sep \<noteq> [] \<and> prefix sep (c # cs)
      then [[], drop (length sep) (c # cs)]
      else (case split_once sep cs of
              p # ps \<Rightarrow> (c # p) # ps
            | [] \<Rightarrow> [[c]]))"

text \<open>
  Reading a file opened in text mode (\<open>open(path, 'r')\<close>, \<open>Path.read_text\<close>)
  translates the line endings \<open>\r\n\<close> and \<open>\r\<close> to \<open>\n\<close>; writing in text mode on
  POSIX writes the characters as they are.
\<close>

fun universal_newlines :: "string \<Rightarrow> string" where
  "universal_newlines [] = []"
| "universal_newlines [c] = (if c = CR then [LF] else [c])"
| "universal_newlines (c # d # ds) =
     (if c = CR
      then (if d = LF then LF # universal_newlines ds
            else LF # universal_newlines (d # ds))
      else c # universal_newlines (d # ds))"

section \<open>Configuration\<close>

text \<open>
  The module-level configuration (lines 25 to 67). Times are microseconds; \<open>RETAIN\<close>
  is \<open>timedelta(days=RETAIN_DAYS)\<close>; \<open>CACHE_PRIORITY\<close> is \<open>str(CACHE_PRIORITY)\<close>.
\<close>

record config =
  working_dir :: "string list"
  MIRROR_BASE_URL :: string
  PATH_BATCH :: int
  DELETE_OLD :: bool
  RETAIN :: int
  SAVE_STATS :: bool
  COLLECT_GARBAGE :: bool
  SET_CACHE_PRIORITY :: bool
  CACHE_PRIORITY :: string
  CHANNEL_MATCH_SUBSTRING :: string
  CHANNELS_LIST :: string
  stats_timestamp :: string

definition STORE_DIR :: string where "STORE_DIR = ''store''"
definition RELEASES_DIR :: string where "RELEASES_DIR = ''releases''"
definition STATS_DIR :: string where "STATS_DIR = ''stats''"

definition binary_cache_url :: "config \<Rightarrow> string" where
  "binary_cache_url cfg = MIRROR_BASE_URL cfg @ ''/'' @ STORE_DIR"

text \<open>
  The priority rewrite of update_channels (lines 315 to 319): the text read from
  nix-cache-info, and the text written back.
\<close>

definition rewrite_cache_info :: "config \<Rightarrow> string \<Rightarrow> string" where
  "rewrite_cache_info cfg contents =
     str_replace ''Priority: 40'' (''Priority: '' @ CACHE_PRIORITY cfg)
       (universal_newlines contents)"

text \<open>\<open>bytes.rstrip()\<close> strips trailing ASCII whitespace; \<open>s.rstrip('/')\<close> strips slashes.\<close>

definition is_space :: "char \<Rightarrow> bool" where
  "is_space c = (c \<in> set [CHR 0x20, CHR 0x09, CHR 0x0A, CHR 0x0D, CHR 0x0B, CHR 0x0C])"

definition rstrip_pred :: "(char \<Rightarrow> bool) \<Rightarrow> string \<Rightarrow> string" where
  "rstrip_pred P s = rev (dropWhile P (rev s))"

definition rstrip :: "string \<Rightarrow> string" where
  "rstrip s = rstrip_pred is_space s"

text \<open>\<open>str(n)\<close> for a natural number.\<close>

fun str_nat :: "nat \<Rightarrow> string" where
  "str_nat n =
     (if n < 10 then [char_of (48 + n)] else str_nat (n div 10) @ [char_of (48 + n mod 10)])"

section \<open>Paths and the file system\<close>

text \<open>
  A path is the tuple of its components (\<open>PurePosixPath.parts\<close>); the root is the
  component \<open>/\<close>. \<open>pjoin p s\<close> is \<open>p / s\<close>: an absolute \<open>s\<close> replaces \<open>p\<close>, empty
  components and \<open>.\<close> are dropped, \<open>..\<close> is kept as it is.
\<close>

type_synonym path = "string list"

definition parts :: "string \<Rightarrow> string list" where
  "parts s = filter (\<lambda>c. c \<noteq> [] \<and> c \<noteq> ''.'') (str_split ''/'' s)"

definition pjoin :: "path \<Rightarrow> string \<Rightarrow> path" where
  "pjoin p s = (if prefix ''/'' s then ''/'' # parts s else p @ parts s)"

definition parent :: "path \<Rightarrow> path" where
  "parent p = (if p = [''/''] then p else butlast p)"

definition name :: "path \<Rightarrow> string" where
  "name p = (if p = [] \<or> p = [''/''] then [] else last p)"

text \<open>
  The file system is a finite table from paths to nodes, in the order in which
  \<open>iterdir\<close> lists them. Symbolic links are followed one level, where the program
  goes through its own pointers; the links it creates point at release directories.
  An operation fails only through the path it names: reading, unlinking or renaming a
  missing path, unlinking a directory or a path the operating system refuses, and
  creating a link where something exists. Creating directories and opening a file for
  writing succeed.
\<close>

datatype node = File string | Symlink string | Dir

type_synonym filesystem = "(path \<times> node) list"

datatype exc =
    ConnectionError
  | Timeout
  | ChunkedEncodingError
  | WrongSize nat nat
  | HTTPError nat
  | MaxRetryError exc
  | S3Error
  | ValueError
  | KeyError
  | FileNotFoundError
  | FileExistsError
  | IsADirectoryError
  | PermissionError
  | LZMAError

datatype event =
    EvListObjects
  | EvGetObject string
  | EvHttpGet string
  | EvOracle string "string list"
  | EvMkdir path
  | EvOpenW path
  | EvWrite path string
  | EvRename path path
  | EvUnlink path
  | EvSymlink path string

definition is_symlink :: "filesystem \<Rightarrow> path \<Rightarrow> bool" where
  "is_symlink fs p = (case map_of fs p of Some (Symlink t) \<Rightarrow> True | _ \<Rightarrow> False)"

definition readlink :: "filesystem \<Rightarrow> path \<Rightarrow> string option" where
  "readlink fs p = (case map_of fs p of Some (Symlink t) \<Rightarrow> Some t | _ \<Rightarrow> None)"

definition deref :: "filesystem \<Rightarrow> path \<Rightarrow> path" where
  "deref fs p = (case map_of fs p of Some (Symlink t) \<Rightarrow> pjoin (parent p) t | _ \<Rightarrow> p)"

definition path_exists :: "filesystem \<Rightarrow> path \<Rightarrow> bool" where
  "path_exists fs p = (map_of fs (deref fs p) \<noteq> None)"

definition read_bytes :: "filesystem \<Rightarrow> path \<Rightarrow> exc + string" where
  "read_bytes fs p =
     (case map_of fs p of
        Some (File c) \<Rightarrow> Inr c
      | Some Dir \<Rightarrow> Inl IsADirectoryError
      | _ \<Rightarrow> Inl FileNotFoundError)"

definition read_text :: "filesystem \<Rightarrow> path \<Rightarrow> exc + string" where
  "read_text fs p =
     (case read_bytes fs p of Inl e \<Rightarrow> Inl e | Inr c \<Rightarrow> Inr (universal_newlines c))"

definition file_size :: "filesystem \<Rightarrow> path \<Rightarrow> nat" where
  "file_size fs p = (case map_of fs p of Some (File c) \<Rightarrow> length c | _ \<Rightarrow> 0)"

definition iterdir :: "filesystem \<Rightarrow> path \<Rightarrow> path list" where
  "iterdir fs d = filter (\<lambda>p. p \<noteq> [] \<and> butlast p = d) (map fst fs)"

definition ancestors :: "path \<Rightarrow> path list" where
  "ancestors p = map (\<lambda>k. take k p) [1..<Suc (length p)]"

fun apply_ev :: "event \<Rightarrow> filesystem \<Rightarrow> filesystem" where
  "apply_ev (EvMkdir p) fs =
     fold (\<lambda>d fs. if map_of fs d = None then AList.update d Dir fs else fs) (ancestors p) fs"
| "apply_ev (EvOpenW p) fs = AList.update p (File []) fs"
| "apply_ev (EvWrite p s) fs =
     (case map_of fs p of
        Some (File c) \<Rightarrow> AList.update p (File (c @ s)) fs
      | _ \<Rightarrow> AList.update p (File s) fs)"
| "apply_ev (EvRename src dst) fs =
     (case map_of fs src of
        Some n \<Rightarrow> AList.update dst n (AList.delete src fs)
      | None \<Rightarrow> fs)"
| "apply_ev (EvUnlink p) fs = AList.delete p fs"
| "apply_ev (EvSymlink p t) fs = AList.update p (Symlink t) fs"
| "apply_ev _ fs = fs"

section \<open>The world outside the program, and the program state\<close>

text \<open>
  A response of the HTTP client: the status, the declared \<open>Content-Length\<close> if any,
  the chunks \<open>iter_content\<close> yields and the exception it raises after them, if any;
  for a release page, the text of its \<open>p\<close> elements and, for each \<open>tr\<close>, the texts
  of its \<open>td\<close> cells (what pyquery extracts).
\<close>

record response =
  status_code :: nat
  content_length :: "nat option"
  chunks :: "string list"
  stream_error :: "exc option"
  page_tagline :: string
  page_rows :: "string list list"

datatype http_outcome = Raises exc | Responds response

text \<open>
  The collaborators: the hash function of hashlib, the HTTP session (what the n-th
  external call gets for a URL), the channel bucket, the lzma decoder, the \<open>nix
  path-info\<close> subprocess with and without \<open>--json\<close> (return code and decoded output),
  \<open>datetime.strptime\<close> with the format of line 437, the clock, and the paths the
  operating system refuses to unlink.
\<close>

record env =
  sha256 :: "string \<Rightarrow> string"
  http :: "nat \<Rightarrow> string \<Rightarrow> http_outcome"
  list_objects :: "exc + (string \<times> int) list"
  get_object :: "string \<Rightarrow> exc + string"
  unxz :: "string \<Rightarrow> string list option"
  path_info_json :: "nat \<Rightarrow> string \<Rightarrow> string list \<Rightarrow> int \<times> (string \<times> string) list"
  path_info :: "nat \<Rightarrow> string \<Rightarrow> string list \<Rightarrow> string list"
  strptime :: "string \<Rightarrow> int option"
  now :: int
  unlink_denied :: "path \<Rightarrow> bool"

text \<open>
  The state: the file system, the global \<open>failure\<close> of line 82, the number of
  external calls made so far, and the log of effects.
\<close>

record state =
  fs :: filesystem
  failure :: bool
  tick :: nat
  trace :: "event list"

definition emit :: "event \<Rightarrow> state \<Rightarrow> state" where
  "emit ev st = st\<lparr>fs := apply_ev ev (fs st), trace := trace st @ [ev]\<rparr>"

definition external :: "event \<Rightarrow> state \<Rightarrow> state" where
  "external ev st = st\<lparr>tick := Suc (tick st), trace := trace st @ [ev]\<rparr>"

definition write_text :: "path \<Rightarrow> string \<Rightarrow> state \<Rightarrow> state" where
  "write_text p s st = emit (EvWrite p s) (emit (EvOpenW p) st)"

definition unlink :: "env \<Rightarrow> path \<Rightarrow> state \<Rightarrow> (exc + unit) \<times> state" where
  "unlink env p st =
     (if map_of (fs st) p = None then (Inl FileNotFoundError, st)
      else if map_of (fs st) p = Some Dir then (Inl IsADirectoryError, st)
      else if unlink_denied env p then (Inl PermissionError, st)
      else (Inr (), emit (EvUnlink p) st))"

definition rename :: "path \<Rightarrow> path \<Rightarrow> state \<Rightarrow> (exc + unit) \<times> state" where
  "rename src dst st =
     (if map_of (fs st) src = None then (Inl FileNotFoundError, st)
      else (Inr (), emit (EvRename src dst) st))"

definition symlink_to :: "path \<Rightarrow> string \<Rightarrow> state \<Rightarrow> (exc + unit) \<times> state" where
  "symlink_to p target st =
     (if map_of (fs st) p \<noteq> None then (Inl FileExistsError, st)
      else (Inr (), emit (EvSymlink p target) st))"

text \<open>file_sha256 (lines 89 to 97).\<close>

definition file_sha256 :: "env \<Rightarrow> filesystem \<Rightarrow> path \<Rightarrow> exc + string" where
  "file_sha256 env files dest =
     (case read_bytes files dest of Inl e \<Rightarrow> Inl e | Inr c \<Rightarrow> Inr (sha256 env c))"

section \<open>The fetcher\<close>

text \<open>
  \<open>Retry(total=5, ...)\<close> of urllib3 (line 70) as the loop of download uses it: only
  \<open>total\<close> is set, and \<open>increment\<close> returns the object with \<open>total\<close> lowered by one,
  or raises MaxRetryError once \<open>total\<close> would drop below zero. It never returns
  \<open>None\<close>; the result type keeps that case because line 139 tests for it.
\<close>

record retry =
  total :: int

definition retries :: retry where
  "retries = \<lparr>total = 5\<rparr>"

definition increment :: "retry \<Rightarrow> exc \<Rightarrow> exc + retry option" where
  "increment r e =
     (let t = total r - 1
      in if t < 0 then Inl (MaxRetryError e) else Inr (Some (r\<lparr>total := t\<rparr>)))"

text \<open>The exceptions \<open>except (requests.exceptions.ConnectionError, WrongSize)\<close> catches.\<close>

fun caught :: "exc \<Rightarrow> bool" where
  "caught ConnectionError = True"
| "caught (WrongSize expected actual) = True"
| "caught _ = False"

definition raise_for_status :: "response \<Rightarrow> exc option" where
  "raise_for_status res =
     (if 400 \<le> status_code res \<and> status_code res < 600
      then Some (HTTPError (status_code res)) else None)"

definition http_get :: "env \<Rightarrow> string \<Rightarrow> state \<Rightarrow> http_outcome \<times> state" where
  "http_get env url st = (http env (tick st) url, external (EvHttpGet url) st)"

definition write_chunks :: "path \<Rightarrow> string list \<Rightarrow> state \<Rightarrow> state" where
  "write_chunks p cs st =
     fold (\<lambda>chunk st. if chunk \<noteq> [] then emit (EvWrite p chunk) st else st) cs st"

text \<open>
  One pass of the body of the \<open>while True\<close> loop of download (lines 118 to 131), up to
  the handler: what the \<open>try\<close> block raised, if anything.
\<close>

definition attempt_error :: "response \<Rightarrow> filesystem \<Rightarrow> path \<Rightarrow> exc option" where
  "attempt_error res files download_dest =
     (case stream_error res of
        Some e \<Rightarrow> Some e
      | None \<Rightarrow>
          (case content_length res of
             Some expected_size \<Rightarrow>
               (if file_size files download_dest \<noteq> expected_size
                then Some (WrongSize expected_size (file_size files download_dest))
                else None)
           | None \<Rightarrow> None))"

function download_loop ::
  "env \<Rightarrow> string \<Rightarrow> path \<Rightarrow> retry \<Rightarrow> state \<Rightarrow> (exc + unit) \<times> state" where
  "download_loop env url download_dest retry st =
     (case http_get env url st of
        (Raises e, st1) \<Rightarrow> (Inl e, st1)
      | (Responds res, st1) \<Rightarrow>
          (case raise_for_status res of
             Some e \<Rightarrow> (Inl e, st1)
           | None \<Rightarrow>
               (let st2 = write_chunks download_dest (chunks res)
                            (emit (EvOpenW download_dest) st1)
                in case attempt_error res (fs st2) download_dest of
                     None \<Rightarrow> (Inr (), st2)
                   | Some e \<Rightarrow>
                       (if \<not> caught e then (Inl e, st2)
                        else (case increment retry e of
                                Inl e' \<Rightarrow> (Inl e', st2)
                              | Inr None \<Rightarrow> (Inl e, st2\<lparr>failure := True\<rparr>)
                              | Inr (Some next_retry) \<Rightarrow>
                                  download_loop env url download_dest next_retry st2)))))"
  by pat_completeness auto
termination
  by (relation "measure (\<lambda>(env, url, download_dest, retry, st). nat (total retry))")
     (auto simp: increment_def Let_def split: if_splits)

text \<open>download (lines 111 to 147).\<close>

definition download :: "env \<Rightarrow> string \<Rightarrow> path \<Rightarrow> state \<Rightarrow> (exc + unit) \<times> state" where
  "download env url dest st =
     (let st0 = emit (EvMkdir (parent dest)) st;
          download_dest = pjoin (parent dest) (''.'' @ name dest @ ''.tmp'')
      in case download_loop env url download_dest retries st0 of
           (Inl e, st1) \<Rightarrow> (Inl e, st1)
         | (Inr u, st1) \<Rightarrow> rename download_dest dest st1)"

section \<open>The Release Publisher: get_channels and clone_channels\<close>

text \<open>\<open>re.fullmatch(r'(nixos|nixpkgs)-.+[^/]', name)\<close> of line 159.\<close>

definition channel_name_ok :: "string \<Rightarrow> bool" where
  "channel_name_ok n =
     list_ex (\<lambda>pre. prefix pre n \<and>
                (let r = drop (length pre) n
                 in 2 \<le> length r \<and> LF \<notin> set (butlast r) \<and> last r \<noteq> CHR ''/''))
       [''nixos-'', ''nixpkgs-'']"

text \<open>get_channels (lines 152 to 169).\<close>

definition get_channels ::
  "config \<Rightarrow> env \<Rightarrow> state \<Rightarrow> (exc + (string \<times> int) list) \<times> state" where
  "get_channels cfg env st =
     (let channels_specified = str_split '','' (CHANNELS_LIST cfg);
          channels_substring = CHANNEL_MATCH_SUBSTRING cfg;
          st1 = external EvListObjects st
      in case list_objects env of
           Inl e \<Rightarrow> (Inl e, st1)
         | Inr objects \<Rightarrow>
             (let all_channels = filter (\<lambda>x. channel_name_ok (fst x)) objects
              in (Inr (filter (\<lambda>element.
                          fst element \<in> set channels_specified
                          \<or> (channels_substring \<noteq> []
                              \<and> contains channels_substring (fst element)))
                        all_channels), st1)))"

text \<open>\<open>datetime(2020, 3, 6, tzinfo=pytz.utc)\<close>, in microseconds since the epoch.\<close>

definition CLONE_SINCE :: int where
  "CLONE_SINCE = 1583452800000000"

text \<open>
  \<open>re.match(r'^Released on (.+) from', tagline)\<close> of line 219, returning group 1:
  the longest non-empty stretch without a newline after \<open>Released on \<close> that is
  followed by \<open> from\<close>.
\<close>

definition match_tagline :: "string \<Rightarrow> string option" where
  "match_tagline tagline =
     (if prefix ''Released on '' tagline
      then (let rest = drop 12 tagline;
                line = takeWhile (\<lambda>c. c \<noteq> LF) rest
            in case filter (\<lambda>k. prefix '' from'' (drop k rest)) (rev [1..<Suc (length line)]) of
                 [] \<Rightarrow> None
               | k # ks \<Rightarrow> Some (take k rest))
      else None)"

text \<open>
  The test of lines 245 to 246, \<open>path.exists() and file_sha256(path) == file_hash\<close>:
  whether the file is there with the expected hash, or the exception that
  \<open>file_sha256\<close> raises on a path that exists and cannot be read (a directory).
\<close>

definition existing_file :: "env \<Rightarrow> filesystem \<Rightarrow> path \<Rightarrow> string \<Rightarrow> exc + bool" where
  "existing_file env files p file_hash =
     (if path_exists files p
      then (case file_sha256 env files (deref files p) of
              Inl e \<Rightarrow> Inl e
            | Inr h \<Rightarrow> Inr (h = file_hash))
      else Inr False)"

text \<open>
  One row of the release page (the body of the loop of lines 236 to 264): the new
  value of \<open>has_hash_fail\<close>, or the exception that leaves the loop.
\<close>

definition clone_row ::
  "env \<Rightarrow> string \<Rightarrow> path \<Rightarrow> string list \<Rightarrow> bool \<Rightarrow> state \<Rightarrow> (exc + bool) \<times> state" where
  "clone_row env chan_location release_path td has_hash_fail st =
     (if length td \<noteq> 3 then (Inr has_hash_fail, st)
      else
        (let file_name = td ! 0; file_hash = td ! 2
         in if endswith file_name ''.ova'' \<or> endswith file_name ''.iso''
            then (Inr has_hash_fail, st)
            else
              (case existing_file env (fs st) (pjoin release_path file_name) file_hash of
                 Inl e \<Rightarrow> (Inl e, st)
               | Inr True \<Rightarrow> (Inr has_hash_fail, st)
               | Inr False \<Rightarrow>
                   (let dest = (if file_name = ''binary-cache-url''
                                then ''.original-binary-cache-url'' else file_name)
                    in case download env (chan_location @ ''/'' @ file_name)
                              (pjoin release_path dest) st of
                         (Inl e, st1) \<Rightarrow> (Inl e, st1)
                       | (Inr u, st1) \<Rightarrow>
                           (case file_sha256 env (fs st1) (pjoin release_path dest) of
                              Inl e \<Rightarrow> (Inl e, st1)
                            | Inr h \<Rightarrow>
                                (if h \<noteq> file_hash
                                 then (Inr True, st1\<lparr>failure := True\<rparr>)
                                 else (Inr has_hash_fail, st1)))))))"

fun clone_rows ::
  "env \<Rightarrow> string \<Rightarrow> path \<Rightarrow> string list list \<Rightarrow> bool \<Rightarrow> state \<Rightarrow> (exc + bool) \<times> state" where
  "clone_rows env chan_location release_path [] has_hash_fail st = (Inr has_hash_fail, st)"
| "clone_rows env chan_location release_path (td # rows) has_hash_fail st =
     (case clone_row env chan_location release_path td has_hash_fail st of
        (Inl e, st1) \<Rightarrow> (Inl e, st1)
      | (Inr has_hash_fail1, st1) \<Rightarrow>
          clone_rows env chan_location release_path rows has_hash_fail1 st1)"

text \<open>
  The end of the loop body of clone_channels (lines 266 to 277): the marker is
  written, then the staged pointer is made unless a hash failed.
\<close>

definition finish_release ::
  "config \<Rightarrow> env \<Rightarrow> string \<Rightarrow> path \<Rightarrow> string \<Rightarrow> path \<Rightarrow> bool \<Rightarrow> string list \<Rightarrow> state
     \<Rightarrow> (exc + string list) \<times> state" where
  "finish_release cfg env channel release_path release_target chan_path_update has_hash_fail
       channels_to_update st =
     (let st1 = write_text (pjoin release_path ''binary-cache-url'') (binary_cache_url cfg) st
      in if has_hash_fail then (Inr channels_to_update, st1)
         else
           (case (if path_exists (fs st1) chan_path_update
                  then unlink env chan_path_update st1 else (Inr (), st1)) of
              (Inl e, st2) \<Rightarrow> (Inl e, st2)
            | (Inr u, st2) \<Rightarrow>
                (case symlink_to chan_path_update release_target st2 of
                   (Inl e, st3) \<Rightarrow> (Inl e, st3)
                 | (Inr u, st3) \<Rightarrow> (Inr (channels_to_update @ [channel]), st3))))"

text \<open>Lines 227 to 277: the release directory, its files, its marker and pointer.\<close>

definition clone_release ::
  "config \<Rightarrow> env \<Rightarrow> string \<Rightarrow> string \<Rightarrow> path \<Rightarrow> string \<Rightarrow> path \<Rightarrow> string \<Rightarrow> string list list
     \<Rightarrow> string list \<Rightarrow> state \<Rightarrow> (exc + string list) \<times> state" where
  "clone_release cfg env channel chan_location release_path release_target chan_path_update
       released_time rows channels_to_update st =
     (let st1 = emit (EvMkdir release_path) st;
          st2 = write_text (pjoin release_path ''.released-time'') released_time st1
      in case clone_rows env chan_location release_path rows False st2 of
           (Inl e, st3) \<Rightarrow> (Inl e, st3)
         | (Inr has_hash_fail, st3) \<Rightarrow>
             finish_release cfg env channel release_path release_target chan_path_update
               has_hash_fail channels_to_update st3)"

text \<open>One pass of the loop of clone_channels (lines 179 to 277).\<close>

definition clone_channel ::
  "config \<Rightarrow> env \<Rightarrow> string \<Rightarrow> int \<Rightarrow> string list \<Rightarrow> state \<Rightarrow> (exc + string list) \<times> state" where
  "clone_channel cfg env channel chan_updated channels_to_update st =
     (let chan_path = pjoin (working_dir cfg) channel
      in if chan_updated < CLONE_SINCE then (Inr channels_to_update, st)
         else
           (let st1 = external (EvGetObject channel) st
            in case get_object env channel of
                 Inl e \<Rightarrow> (Inl e, st1)
               | Inr chan_location \<Rightarrow>
                   (let chan_release = last (str_split ''/'' chan_location);
                        release_target = RELEASES_DIR @ ''/'' @ channel @ ''@'' @ chan_release;
                        release_path = pjoin (working_dir cfg) release_target
                    in if is_symlink (fs st1) chan_path
                          \<and> readlink (fs st1) chan_path = Some release_target
                       then (Inr channels_to_update, st1)
                       else
                         (let chan_path_update =
                                pjoin (working_dir cfg) (''.'' @ channel @ ''.update'')
                          in if is_symlink (fs st1) chan_path_update
                                \<and> readlink (fs st1) chan_path_update = Some release_target
                             then (Inr (channels_to_update @ [channel]), st1)
                             else
                               (case http_get env chan_location st1 of
                                  (Raises e, st2) \<Rightarrow> (Inl e, st2)
                                | (Responds release_res, st2) \<Rightarrow>
                                    (if status_code release_res = 404
                                     then (Inr channels_to_update, st2)
                                     else
                                       (case raise_for_status release_res of
                                          Some e \<Rightarrow> (Inl e, st2)
                                        | None \<Rightarrow>
                                            (case match_tagline (page_tagline release_res) of
                                               None \<Rightarrow> (Inr channels_to_update, st2)
                                             | Some released_time \<Rightarrow>
                                                 clone_release cfg env channel chan_location
                                                   release_path release_target chan_path_update
                                                   released_time (page_rows release_res)
                                                   channels_to_update st2))))))))"

fun clone_loop ::
  "config \<Rightarrow> env \<Rightarrow> (string \<times> int) list \<Rightarrow> string list \<Rightarrow> state
     \<Rightarrow> (exc + string list) \<times> state" where
  "clone_loop cfg env [] channels_to_update st = (Inr channels_to_update, st)"
| "clone_loop cfg env ((channel, chan_updated) # rest) channels_to_update st =
     (case clone_channel cfg env channel chan_updated channels_to_update st of
        (Inl e, st1) \<Rightarrow> (Inl e, st1)
      | (Inr channels_to_update1, st1) \<Rightarrow> clone_loop cfg env rest channels_to_update1 st1)"

text \<open>clone_channels (lines 172 to 280).\<close>

definition clone_channels :: "config \<Rightarrow> env \<Rightarrow> state \<Rightarrow> (exc + string list) \<times> state" where
  "clone_channels cfg env st =
     (case get_channels cfg env (emit (EvMkdir (working_dir cfg)) st) of
        (Inl e, st1) \<Rightarrow> (Inl e, st1)
      | (Inr channels, st1) \<Rightarrow> clone_loop cfg env channels [] st1)"

section \<open>The Bulk Mirror Engine: update_channels\<close>

text \<open>hash_part (lines 283 to 284).\<close>

definition hash_part :: "string \<Rightarrow> string" where
  "hash_part path = hd (split_once ''-'' (last (str_split ''/'' path)))"

text \<open>
  The store paths of a release (lines 323 to 338 and 454 to 463): the lines of the
  decompressed list, right-stripped, without the two texlive entries.
\<close>

definition store_paths :: "env \<Rightarrow> filesystem \<Rightarrow> path \<Rightarrow> exc + string list" where
  "store_paths env files p =
     (case read_bytes files p of
        Inl e \<Rightarrow> Inl e
      | Inr c \<Rightarrow>
          (case unxz env c of
             None \<Rightarrow> Inl LZMAError
           | Some lines \<Rightarrow>
               Inr (filter (\<lambda>path. \<not> contains ''texlive-2022-env-man'' path
                                  \<and> \<not> contains ''texlive-2022-env-info'' path)
                      (map rstrip lines))))"

text \<open>
  \<open>for i in range(0, len(paths), PATH_BATCH): batch = paths[i : i + PATH_BATCH]\<close>:
  the batches in order. \<open>range\<close> raises ValueError for the step 0 and is empty for a
  negative step.
\<close>

function batches :: "nat \<Rightarrow> 'a list \<Rightarrow> 'a list list" where
  "batches n xs = (if n = 0 \<or> xs = [] then [] else take n xs # batches n (drop n xs))"
  by pat_completeness auto
termination
  by (relation "measure (\<lambda>(n, xs). length xs)") auto

definition range_batches :: "int \<Rightarrow> 'a list \<Rightarrow> exc + 'a list list" where
  "range_batches step paths =
     (if step = 0 then Inl ValueError
      else if step < 0 then Inr []
      else Inr (batches (nat step) paths))"

text \<open>
  Lines 358 to 367 for one \<open>info\<close> (its \<open>path\<close> and \<open>url\<close>): the job of the names not
  seen before, appended to \<open>todo\<close> unless empty.
\<close>

definition add_info ::
  "string \<times> string \<Rightarrow> string list list \<times> string list \<Rightarrow> string list list \<times> string list" where
  "add_info info acc =
     (case info of (path, url) \<Rightarrow>
        (case acc of (todo, seen_paths) \<Rightarrow>
           (let ha = hash_part path;
                one_todo = filter (\<lambda>name. name \<notin> set seen_paths) [url, ha @ ''.narinfo'']
            in (if one_todo \<noteq> [] then todo @ [one_todo] else todo, seen_paths @ one_todo))))"

text \<open>
  The loop of lines 342 to 367 over the batches. The first component of the result says
  whether the loop was left by \<open>break\<close> (then \<open>channel_failure\<close> is set and the
  \<open>else\<close> branch of the loop is not run).
\<close>

fun oracle_loop ::
  "env \<Rightarrow> string \<Rightarrow> string list list \<Rightarrow> string list list \<Rightarrow> string list \<Rightarrow> state
     \<Rightarrow> bool \<times> string list list \<times> state" where
  "oracle_loop env store [] todo seen_paths st = (False, todo, st)"
| "oracle_loop env store (batch # rest) todo seen_paths st =
     (case path_info_json env (tick st) store batch of
        (returncode, infos) \<Rightarrow>
          (if returncode \<noteq> 0 then (True, todo, external (EvOracle store batch) st)
           else (case fold add_info infos (todo, seen_paths) of
                   (todo1, seen_paths1) \<Rightarrow>
                     oracle_loop env store rest todo1 seen_paths1
                       (external (EvOracle store batch) st))))"

text \<open>
  \<open>str\<close> of a list of names, as line 379 writes it, for names without quotes,
  backslashes and unprintable characters.
\<close>

definition repr_list :: "string list \<Rightarrow> string" where
  "repr_list names = ''['' @ join '', '' (map (\<lambda>n. [CHR 0x27] @ n @ [CHR 0x27]) names) @ '']''"

text \<open>Lines 371 to 379.\<close>

definition save_sync_stats :: "config \<Rightarrow> string \<Rightarrow> string list list \<Rightarrow> state \<Rightarrow> state" where
  "save_sync_stats cfg channel todo st =
     (if SAVE_STATS cfg
      then (let stats_path = pjoin (working_dir cfg) STATS_DIR;
                cnt_file_name = channel @ ''.'' @ stats_timestamp cfg @ ''.sync.cnt'';
                list_file_name = channel @ ''.'' @ stats_timestamp cfg @ ''.sync.list'';
                st1 = emit (EvMkdir stats_path) st;
                st2 = write_text (pjoin stats_path cnt_file_name)
                        (''Sync files count: '' @ str_nat (length todo)) st1
            in fold (\<lambda>line st. emit (EvWrite (pjoin stats_path list_file_name)
                                      (repr_list line @ [LF])) st)
                 todo (emit (EvOpenW (pjoin stats_path list_file_name)) st2))
      else st)"

text \<open>
  try_mirror (lines 383 to 395) for the paths of one job: \<open>True\<close>, \<open>False\<close> when a
  download raised one of the two caught exceptions, or the exception that escapes.
\<close>

fun try_mirror ::
  "config \<Rightarrow> env \<Rightarrow> string \<Rightarrow> string list \<Rightarrow> state \<Rightarrow> (exc + bool) \<times> state" where
  "try_mirror cfg env upstream_binary_cache [] st = (Inr True, st)"
| "try_mirror cfg env upstream_binary_cache (path # paths) st =
     (let url = upstream_binary_cache @ ''/'' @ path;
          dest = pjoin (pjoin (working_dir cfg) STORE_DIR) path
      in if path_exists (fs st) dest
         then try_mirror cfg env upstream_binary_cache paths st
         else (case download env url dest st of
                 (Inl e, st1) \<Rightarrow> (if caught e then (Inr False, st1) else (Inl e, st1))
               | (Inr u, st1) \<Rightarrow> try_mirror cfg env upstream_binary_cache paths st1))"

text \<open>
  The pool of lines 397 to 403, with the jobs run one after the other in the order of
  \<open>todo\<close>; \<open>all(results)\<close> reads the results in that order, stops at the first
  \<open>False\<close>, and raises the exception of a job when it reaches it.
\<close>

fun run_jobs ::
  "config \<Rightarrow> env \<Rightarrow> string \<Rightarrow> string list list \<Rightarrow> state \<Rightarrow> (exc + bool) list \<times> state" where
  "run_jobs cfg env upstream_binary_cache [] st = ([], st)"
| "run_jobs cfg env upstream_binary_cache (job # jobs) st =
     (case try_mirror cfg env upstream_binary_cache job st of
        (r, st1) \<Rightarrow>
          (case run_jobs cfg env upstream_binary_cache jobs st1 of
             (rs, st2) \<Rightarrow> (r # rs, st2)))"

fun all_results :: "(exc + bool) list \<Rightarrow> exc + bool" where
  "all_results [] = Inr True"
| "all_results (Inl e # rs) = Inl e"
| "all_results (Inr False # rs) = Inr False"
| "all_results (Inr True # rs) = all_results rs"

text \<open>
  The \<open>else\<close> branch of the loop (lines 369 to 403): the value of \<open>channel_failure\<close>
  after it.
\<close>

definition mirror_jobs ::
  "config \<Rightarrow> env \<Rightarrow> string \<Rightarrow> string \<Rightarrow> string list list \<Rightarrow> state \<Rightarrow> (exc + bool) \<times> state" where
  "mirror_jobs cfg env channel upstream_binary_cache todo st =
     (case run_jobs cfg env upstream_binary_cache todo (save_sync_stats cfg channel todo st) of
        (results, st1) \<Rightarrow>
          (case all_results results of
             Inl e \<Rightarrow> (Inl e, st1)
           | Inr ok \<Rightarrow> (Inr (\<not> ok), st1)))"

text \<open>Lines 304 to 321: nix-cache-info, fetched and rewritten.\<close>

definition fetch_cache_info :: "config \<Rightarrow> env \<Rightarrow> string \<Rightarrow> state \<Rightarrow> (exc + unit) \<times> state" where
  "fetch_cache_info cfg env upstream_binary_cache st =
     (let info_file = ''nix-cache-info'';
          info_file_path = pjoin (pjoin (working_dir cfg) STORE_DIR) info_file
      in case download env (upstream_binary_cache @ ''/'' @ info_file) info_file_path st of
           (Inl e, st1) \<Rightarrow> (Inl e, st1)
         | (Inr u, st1) \<Rightarrow>
             (if SET_CACHE_PRIORITY cfg
              then (case read_bytes (fs st1) info_file_path of
                      Inl e \<Rightarrow> (Inl e, st1)
                    | Inr cache_info_data \<Rightarrow>
                        (Inr (), write_text info_file_path
                                   (rewrite_cache_info cfg cache_info_data) st1))
              else (Inr (), st1)))"

text \<open>
  Lines 340 to 409 for the paths of one channel: the batches, the oracle, the jobs, and
  the promotion of the staged pointer. The result is \<open>channel_failure\<close>.
\<close>

definition mirror_paths ::
  "config \<Rightarrow> env \<Rightarrow> string \<Rightarrow> string \<Rightarrow> string list \<Rightarrow> state \<Rightarrow> (exc + bool) \<times> state" where
  "mirror_paths cfg env channel upstream_binary_cache paths st =
     (let chan_path = pjoin (working_dir cfg) channel;
          chan_path_update = pjoin (working_dir cfg) (''.'' @ channel @ ''.update'')
      in case range_batches (PATH_BATCH cfg) paths of
           Inl e \<Rightarrow> (Inl e, st)
         | Inr bs \<Rightarrow>
             (case oracle_loop env upstream_binary_cache bs [] [] st of
                (True, todo, st1) \<Rightarrow> (Inr True, st1)
              | (False, todo, st1) \<Rightarrow>
                  (case mirror_jobs cfg env channel upstream_binary_cache todo st1 of
                     (Inl e, st2) \<Rightarrow> (Inl e, st2)
                   | (Inr channel_failure, st2) \<Rightarrow>
                       (if channel_failure then (Inr True, st2)
                        else (case rename chan_path_update chan_path st2 of
                                (Inl e, st3) \<Rightarrow> (Inl e, st3)
                              | (Inr u, st3) \<Rightarrow> (Inr False, st3))))))"

text \<open>One pass of the loop of update_channels (lines 292 to 409).\<close>

definition update_channel ::
  "config \<Rightarrow> env \<Rightarrow> string \<Rightarrow> bool \<Rightarrow> state \<Rightarrow> (exc + bool) \<times> state" where
  "update_channel cfg env channel has_cache_info st =
     (let chan_path_update = pjoin (working_dir cfg) (''.'' @ channel @ ''.update'')
      in case read_text (fs st)
                (pjoin (deref (fs st) chan_path_update) ''.original-binary-cache-url'') of
           Inl e \<Rightarrow> (Inl e, st)
         | Inr text \<Rightarrow>
             (let upstream_binary_cache = rstrip_pred (\<lambda>c. c = CHR ''/'') text
              in case (if \<not> has_cache_info
                       then fetch_cache_info cfg env upstream_binary_cache st
                       else (Inr (), st)) of
                   (Inl e, st1) \<Rightarrow> (Inl e, st1)
                 | (Inr u, st1) \<Rightarrow>
                     (case store_paths env (fs st1)
                             (pjoin (deref (fs st1) chan_path_update) ''store-paths.xz'') of
                        Inl e \<Rightarrow> (Inl e, st1)
                      | Inr paths \<Rightarrow>
                          mirror_paths cfg env channel upstream_binary_cache paths st1)))"

fun update_loop ::
  "config \<Rightarrow> env \<Rightarrow> string list \<Rightarrow> bool \<Rightarrow> state \<Rightarrow> (exc + unit) \<times> state" where
  "update_loop cfg env [] has_cache_info st = (Inr (), st)"
| "update_loop cfg env (channel # channels) has_cache_info st =
     (case update_channel cfg env channel has_cache_info st of
        (Inl e, st1) \<Rightarrow> (Inl e, st1)
      | (Inr channel_failure, st1) \<Rightarrow> update_loop cfg env channels True st1)"

text \<open>update_channels (lines 287 to 411).\<close>

definition update_channels :: "config \<Rightarrow> env \<Rightarrow> string list \<Rightarrow> state \<Rightarrow> (exc + unit) \<times> state" where
  "update_channels cfg env channels st = update_loop cfg env channels False st"

section \<open>The Garbage Collector\<close>

text \<open>
  \<open>str.splitlines\<close>, for the line boundaries that are single bytes (\<open>\n\<close>, \<open>\r\<close>,
  \<open>\r\n\<close>, \<open>\v\<close>, \<open>\f\<close>, and the separators 0x1C to 0x1E).
\<close>

definition is_linebreak :: "char \<Rightarrow> bool" where
  "is_linebreak c = (c \<in> set [LF, CR, CHR 0x0B, CHR 0x0C, CHR 0x1C, CHR 0x1D, CHR 0x1E])"

fun splitlines :: "string \<Rightarrow> string list" where
  "splitlines [] = []"
| "splitlines [c] = (if is_linebreak c then [[]] else [[c]])"
| "splitlines (c # d # ds) =
     (if is_linebreak c
      then (if c = CR \<and> d = LF then [] # splitlines ds else [] # splitlines (d # ds))
      else (case splitlines (d # ds) of
              l # ls \<Rightarrow> (c # l) # ls
            | [] \<Rightarrow> [[c]]))"

text \<open>
  parse_narinfo (lines 414 to 419). The unpacking \<open>key, value = line.split(': ', 1)\<close>
  raises ValueError for a line without the separator.
\<close>

fun parse_lines :: "string list \<Rightarrow> (string \<times> string) list \<Rightarrow> exc + (string \<times> string) list" where
  "parse_lines [] res = Inr res"
| "parse_lines (line # lines) res =
     (case split_once '': '' line of
        [key, val] \<Rightarrow> parse_lines lines (AList.update key val res)
      | _ \<Rightarrow> Inl ValueError)"

definition parse_narinfo :: "string \<Rightarrow> exc + (string \<times> string) list" where
  "parse_narinfo narinfo = parse_lines (splitlines narinfo) []"

text \<open>
  The first loop of garbage_collect (lines 431 to 445) for one entry of the releases
  directory. \<open>last_updated\<close> and \<open>latest\<close> are the two dictionaries, \<open>alive\<close> the set.
\<close>

definition release_channel :: "path \<Rightarrow> string" where
  "release_channel release = hd (str_split ''@'' (name release))"

definition time_threshold :: "config \<Rightarrow> env \<Rightarrow> int" where
  "time_threshold cfg env = now env - RETAIN cfg"

definition released_date :: "env \<Rightarrow> filesystem \<Rightarrow> path \<Rightarrow> exc + int" where
  "released_date env files release =
     (case read_text files (pjoin release ''.released-time'') of
        Inl e \<Rightarrow> Inl e
      | Inr date_str \<Rightarrow>
          (case strptime env date_str of None \<Rightarrow> Inl ValueError | Some d \<Rightarrow> Inr d))"

definition gc_scan_step ::
  "config \<Rightarrow> env \<Rightarrow> filesystem \<Rightarrow> path
     \<Rightarrow> (string \<times> int) list \<times> (string \<times> path) list \<times> path list
     \<Rightarrow> exc + (string \<times> int) list \<times> (string \<times> path) list \<times> path list" where
  "gc_scan_step cfg env files release acc =
     (case acc of (last_updated, latest, alive) \<Rightarrow>
        (if \<not> path_exists files (pjoin release ''binary-cache-url'') then Inr acc
         else
           (let channel = release_channel release
            in case released_date env files release of
                 Inl e \<Rightarrow> Inl e
               | Inr date \<Rightarrow>
                   (let alive1 = (if date \<ge> time_threshold cfg env
                                  then List.insert release alive else alive)
                    in if (case map_of last_updated channel of
                             None \<Rightarrow> True
                           | Some d \<Rightarrow> d < date)
                       then Inr (AList.update channel date last_updated,
                                 AList.update channel release latest, alive1)
                       else Inr (last_updated, latest, alive1)))))"

fun gc_scan ::
  "config \<Rightarrow> env \<Rightarrow> filesystem \<Rightarrow> path list
     \<Rightarrow> (string \<times> int) list \<times> (string \<times> path) list \<times> path list
     \<Rightarrow> exc + (string \<times> int) list \<times> (string \<times> path) list \<times> path list" where
  "gc_scan cfg env files [] acc = Inr acc"
| "gc_scan cfg env files (release # rest) acc =
     (case gc_scan_step cfg env files release acc of
        Inl e \<Rightarrow> Inl e
      | Inr acc1 \<Rightarrow> gc_scan cfg env files rest acc1)"

text \<open>Lines 427 to 447: the set \<open>alive\<close> after \<open>alive.update(latest.values())\<close>.\<close>

definition retained :: "config \<Rightarrow> env \<Rightarrow> filesystem \<Rightarrow> exc + path list" where
  "retained cfg env files =
     (if map_of files (pjoin (working_dir cfg) RELEASES_DIR) = None then Inl FileNotFoundError
      else (case gc_scan cfg env files (iterdir files (pjoin (working_dir cfg) RELEASES_DIR))
                   ([], [], []) of
              Inl e \<Rightarrow> Inl e
            | Inr (last_updated, latest, alive) \<Rightarrow>
                Inr (fold List.insert (map snd latest) alive)))"

text \<open>Lines 451 to 478: the closure of the retained releases in the local store.\<close>

definition path_str :: "path \<Rightarrow> string" where
  "path_str p = (case p of
                   [] \<Rightarrow> ''.''
                 | c # cs \<Rightarrow> (if c = ''/'' then ''/'' @ join ''/'' cs else join ''/'' (c # cs)))"

definition nix_store_dest :: "config \<Rightarrow> string" where
  "nix_store_dest cfg = ''file://'' @ path_str (pjoin (working_dir cfg) STORE_DIR)"

fun closure_batches ::
  "env \<Rightarrow> string \<Rightarrow> string list list \<Rightarrow> string list \<Rightarrow> state \<Rightarrow> string list \<times> state" where
  "closure_batches env store [] closure st = (closure, st)"
| "closure_batches env store (batch # rest) closure st =
     closure_batches env store rest
       (fold (\<lambda>path c. List.insert (hash_part path) c) (path_info env (tick st) store batch)
          closure)
       (external (EvOracle store batch) st)"

fun gc_closure ::
  "config \<Rightarrow> env \<Rightarrow> path list \<Rightarrow> string list \<Rightarrow> state \<Rightarrow> (exc + string list) \<times> state" where
  "gc_closure cfg env [] closure st = (Inr closure, st)"
| "gc_closure cfg env (release # rest) closure st =
     (case store_paths env (fs st) (pjoin release ''store-paths.xz'') of
        Inl e \<Rightarrow> (Inl e, st)
      | Inr paths \<Rightarrow>
          (case range_batches (PATH_BATCH cfg) paths of
             Inl e \<Rightarrow> (Inl e, st)
           | Inr bs \<Rightarrow>
               (case closure_batches env (nix_store_dest cfg) bs closure st of
                  (closure1, st1) \<Rightarrow> gc_closure cfg env rest closure1 st1)))"

text \<open>Lines 482 to 489.\<close>

definition save_closure_stats :: "config \<Rightarrow> string list \<Rightarrow> state \<Rightarrow> state" where
  "save_closure_stats cfg closure st =
     (if SAVE_STATS cfg
      then (let stats_path = pjoin (working_dir cfg) STATS_DIR;
                closure_cnt_file_name = stats_timestamp cfg @ ''.closure.cnt'';
                closure_list_file_name = stats_timestamp cfg @ ''.closure.list'';
                st1 = write_text (pjoin stats_path closure_cnt_file_name)
                        (''Sync files count: '' @ str_nat (length closure)) st
            in fold (\<lambda>line st. emit (EvWrite (pjoin stats_path closure_list_file_name)
                                      (line @ [LF])) st)
                 closure (emit (EvOpenW (pjoin stats_path closure_list_file_name)) st1))
      else st)"

text \<open>
  The body of the last loop (lines 494 to 512) for one entry of the store directory:
  the new value of \<open>deleted\<close>, or the exception that leaves the loop. The two
  \<open>try ... except: pass\<close> keep the state and drop the exception.
\<close>

definition sweep_step ::
  "config \<Rightarrow> env \<Rightarrow> string list \<Rightarrow> path \<Rightarrow> nat \<Rightarrow> state \<Rightarrow> (exc + nat) \<times> state" where
  "sweep_step cfg env closure path deleted st =
     (if \<not> endswith (name path) ''.narinfo'' then (Inr deleted, st)
      else
        (let hash = hd (split_once ''.narinfo'' (name path))
         in if hash \<in> set closure then (Inr deleted, st)
            else if DELETE_OLD cfg
            then (case read_text (fs st) path of
                    Inl e \<Rightarrow> (Inl e, st)
                  | Inr text \<Rightarrow>
                      (case parse_narinfo text of
                         Inl e \<Rightarrow> (Inl e, st)
                       | Inr narinfo \<Rightarrow>
                           (let st1 = snd (unlink env path st);
                                st2 = (case map_of narinfo ''URL'' of
                                         None \<Rightarrow> st1
                                       | Some url \<Rightarrow>
                                           snd (unlink env
                                                  (pjoin (pjoin (working_dir cfg) STORE_DIR) url)
                                                  st1))
                            in (Inr (Suc deleted), st2))))
            else (Inr (Suc deleted), st)))"

fun sweep ::
  "config \<Rightarrow> env \<Rightarrow> string list \<Rightarrow> path list \<Rightarrow> nat \<Rightarrow> state \<Rightarrow> (exc + nat) \<times> state" where
  "sweep cfg env closure [] deleted st = (Inr deleted, st)"
| "sweep cfg env closure (path # rest) deleted st =
     (case sweep_step cfg env closure path deleted st of
        (Inl e, st1) \<Rightarrow> (Inl e, st1)
      | (Inr deleted1, st1) \<Rightarrow> sweep cfg env closure rest deleted1 st1)"

text \<open>garbage_collect (lines 422 to 517): the number it logs, or the exception.\<close>

definition garbage_collect :: "config \<Rightarrow> env \<Rightarrow> state \<Rightarrow> (exc + nat) \<times> state" where
  "garbage_collect cfg env st =
     (case retained cfg env (fs st) of
        Inl e \<Rightarrow> (Inl e, st)
      | Inr alive \<Rightarrow>
          (case gc_closure cfg env alive [] st of
             (Inl e, st1) \<Rightarrow> (Inl e, st1)
           | (Inr closure, st1) \<Rightarrow>
               (let st2 = save_closure_stats cfg closure st1
                in if map_of (fs st2) (pjoin (working_dir cfg) STORE_DIR) = None
                   then (Inl FileNotFoundError, st2)
                   else sweep cfg env closure
                          (iterdir (fs st2) (pjoin (working_dir cfg) STORE_DIR)) 0 st2)))"

section \<open>The main program\<close>

text \<open>
  Lines 520 to 534: the exit code and the final state. An exception out of
  garbage_collect is not caught: the interpreter exits with code 1.
\<close>

definition sync :: "config \<Rightarrow> env \<Rightarrow> state \<Rightarrow> state" where
  "sync cfg env st =
     (case clone_channels cfg env st of
        (Inl e, st1) \<Rightarrow> st1\<lparr>failure := True\<rparr>
      | (Inr channels, st1) \<Rightarrow>
          (case update_channels cfg env channels st1 of
             (Inl e, st2) \<Rightarrow> st2\<lparr>failure := True\<rparr>
           | (Inr u, st2) \<Rightarrow> st2))"

definition main :: "config \<Rightarrow> env \<Rightarrow> state \<Rightarrow> nat \<times> state" where
  "main cfg env st =
     (let st1 = sync cfg env st
      in if COLLECT_GARBAGE cfg
         then (case garbage_collect cfg env st1 of
                 (Inl e, st2) \<Rightarrow> (1, st2)
               | (Inr deleted, st2) \<Rightarrow> (if failure st2 then 1 else 0, st2))
         else (if failure st1 then 1 else 0, st1))"

section \<open>Logs of effects\<close>

text \<open>
  What a step added to the log, what it means for a step to be logged (the log grew,
  the file system is the old one with the new entries applied, and every new entry
  satisfies a given predicate), the entries the loop of download may log, the
  temporary path of line 113, and the entries that leave a given path alone.
\<close>

definition new_events :: "state \<Rightarrow> state \<Rightarrow> event list" where
  "new_events st st' = drop (length (trace st)) (trace st')"

definition logged :: "(event \<Rightarrow> bool) \<Rightarrow> state \<Rightarrow> state \<Rightarrow> bool" where
  "logged ok st st' =
     (prefix (trace st) (trace st')
      \<and> fs st' = fold apply_ev (new_events st st') (fs st)
      \<and> list_all ok (new_events st st'))"

definition loop_event :: "string \<Rightarrow> path \<Rightarrow> event \<Rightarrow> bool" where
  "loop_event url p ev =
     (case ev of EvHttpGet u \<Rightarrow> u = url | EvOpenW q \<Rightarrow> q = p
      | EvWrite q c \<Rightarrow> q = p | _ \<Rightarrow> False)"

definition temp_path :: "path \<Rightarrow> path" where
  "temp_path dest = pjoin (parent dest) (''.'' @ name dest @ ''.tmp'')"

fun leaves :: "path \<Rightarrow> event \<Rightarrow> bool" where
  "leaves p (EvMkdir q) = (p \<notin> set (ancestors q))"
| "leaves p (EvOpenW q) = (q \<noteq> p)"
| "leaves p (EvWrite q c) = (q \<noteq> p)"
| "leaves p (EvRename a b) = (a \<noteq> p \<and> b \<noteq> p)"
| "leaves p (EvUnlink q) = (q \<noteq> p)"
| "leaves p (EvSymlink q t) = (q \<noteq> p)"
| "leaves p _ = True"

section \<open>A concrete configuration\<close>

text \<open>The defaults of lines 31 to 44, with a working directory of three components.\<close>

definition example_config :: config where
  "example_config =
     \<lparr>working_dir = [''/'', ''srv'', ''mirror''],
      MIRROR_BASE_URL = ''https://mirrors.tuna.tsinghua.edu.cn/nix-channels'',
      PATH_BATCH = 8192,
      DELETE_OLD = True,
      RETAIN = 2592000000000,
      SAVE_STATS = True,
      COLLECT_GARBAGE = False,
      SET_CACHE_PRIORITY = True,
      CACHE_PRIORITY = ''10'',
      CHANNEL_MATCH_SUBSTRING = ''nixos-23.11-small'',
      CHANNELS_LIST = ''nixos-23.11-small,nixos-24.05-small'',
      stats_timestamp = ''2024-01-01-00-00-00''\<rparr>"

text \<open>
  A quiet world: no channels listed, every request refused, empty oracle output. The
  digest is a stand-in for SHA-256; no property of the real function is used.
\<close>

definition example_env :: env where
  "example_env =
     \<lparr>sha256 = (\<lambda>c. ''sha256:'' @ c),
      http = (\<lambda>t url. Raises ConnectionError),
      list_objects = Inr [],
      get_object = (\<lambda>channel. Inr ''https://releases.nixos.org/r1''),
      unxz = (\<lambda>c. Some (str_split [LF] c)),
      path_info_json = (\<lambda>t store batch. (0, [])),
      path_info = (\<lambda>t store batch. []),
      strptime = (\<lambda>s. None),
      now = 1700000000000000,
      unlink_denied = (\<lambda>p. False)\<rparr>"

definition initial_state :: state where
  "initial_state = \<lparr>fs = [], failure = False, tick = 0, trace = []\<rparr>"

text \<open>A working directory in which the channel nixos-a is live at release r1.\<close>

definition live_state :: state where
  "live_state =
     \<lparr>fs = [([''/'', ''srv'', ''mirror'', ''nixos-a''], Symlink ''releases/nixos-a@r1'')],
      failure = False, tick = 0, trace = []\<rparr>"

text \<open>
  Two servers: one answers every request with the three bytes \<open>abc\<close> in chunks and a
  matching declared length, the other breaks every response off after two bytes
  with a connection error.
\<close>

definition serving_env :: env where
  "serving_env = example_env\<lparr>http := (\<lambda>t url. Responds
      \<lparr>status_code = 200, content_length = Some 3, chunks = [''ab'', [], ''c''],
       stream_error = None, page_tagline = [], page_rows = []\<rparr>)\<rparr>"

definition flaky_env :: env where
  "flaky_env = example_env\<lparr>http := (\<lambda>t url. Responds
      \<lparr>status_code = 200, content_length = None, chunks = [''ab''],
       stream_error = Some ConnectionError, page_tagline = [], page_rows = []\<rparr>)\<rparr>"






text \<open>
  A run that finds the channel nixos-23.11-small staged at release r1 (the state a
  previous run left), with an upstream cache that serves nix-cache-info and a
  \<open>nix path-info\<close> that exits with code 1.
\<close>

definition staged_state :: state where
  "staged_state =
     \<lparr>fs = [([''/'', ''srv'', ''mirror''], Dir),
             ([''/'', ''srv'', ''mirror'', ''releases''], Dir),
             ([''/'', ''srv'', ''mirror'', ''releases'', ''nixos-23.11-small@r1''], Dir),
             ([''/'', ''srv'', ''mirror'', ''releases'', ''nixos-23.11-small@r1'',
               ''.original-binary-cache-url''], File ''https://cache.nixos.org''),
             ([''/'', ''srv'', ''mirror'', ''releases'', ''nixos-23.11-small@r1'',
               ''store-paths.xz''], File ''/nix/store/aaa-x''),
             ([''/'', ''srv'', ''mirror'', ''.nixos-23.11-small.update''],
              Symlink ''releases/nixos-23.11-small@r1'')],
      failure = False, tick = 0, trace = []\<rparr>"

definition oracle_down_env :: env where
  "oracle_down_env = example_env
     \<lparr>http := (\<lambda>t url. Responds
         \<lparr>status_code = 200, content_length = None,
          chunks = [''Priority: 40''], stream_error = None,
          page_tagline = [], page_rows = []\<rparr>),
      list_objects := Inr [(''nixos-23.11-small'', 1700000000000000)],
      path_info_json := (\<lambda>t store batch. (1, []))\<rparr>"

text \<open>
  The same run with an oracle that lists one artifact and an upstream cache that
  serves nix-cache-info and refuses the connection for everything else.
\<close>

definition jobs_refused_env :: env where
  "jobs_refused_env = example_env
     \<lparr>http := (\<lambda>t url.
         if url = ''https://cache.nixos.org/nix-cache-info''
         then Responds \<lparr>status_code = 200, content_length = None,
                chunks = [''Priority: 40''], stream_error = None,
                page_tagline = [], page_rows = []\<rparr>
         else Raises ConnectionError),
      list_objects := Inr [(''nixos-23.11-small'', 1700000000000000)],
      path_info_json := (\<lambda>t store batch. (0, [(''/nix/store/aaa-x'', ''nar/aaa.nar.xz'')]))\<rparr>"


text \<open>The staged state after clone_channels has listed and resolved the channel.\<close>

definition resolved_state :: state where
  "resolved_state =
     staged_state\<lparr>fs := fs staged_state @ [([''/''], Dir), ([''/'', ''srv''], Dir)],
       tick := 2,
       trace := [EvMkdir [''/'', ''srv'', ''mirror''], EvListObjects,
                 EvGetObject ''nixos-23.11-small'']\<rparr>"

definition no_stats_config :: config where
  "no_stats_config = example_config\<lparr>SAVE_STATS := False\<rparr>"

section \<open>Facts about the string operations\<close>








section \<open>Channels that clone_channels passes over\<close>

lemma clone_channel_old:
  "chan_updated < CLONE_SINCE \<Longrightarrow>
   clone_channel cfg env channel chan_updated channels_to_update st
     = (Inr channels_to_update, st)"
  by (simp add: clone_channel_def)

lemma clone_channel_live:
  assumes "\<not> chan_updated < CLONE_SINCE"
    and "get_object env channel = Inr chan_location"
    and "readlink (fs st) (pjoin (working_dir cfg) channel)
           = Some (RELEASES_DIR @ ''/'' @ channel @ ''@'' @ last (str_split ''/'' chan_location))"
  shows "clone_channel cfg env channel chan_updated channels_to_update st
           = (Inr channels_to_update, external (EvGetObject channel) st)"
proof -
  from assms(3) have "is_symlink (fs st) (pjoin (working_dir cfg) channel)"
    by (auto simp: readlink_def is_symlink_def split: option.splits node.splits)
  with assms show ?thesis
    by (simp add: clone_channel_def Let_def external_def)
qed

text \<open>
  C9. A channel whose upstream last-modified time is earlier than 2020-03-06 00:00 UTC
  (1583452800 seconds after the epoch) is passed over by clone_channels: the pass of
  the loop returns the list of channels to update and the whole state as they were,
  so there is no request, no download, no file or pointer written; the loop goes on
  with the next channel.
\<close>

theorem clone_channel_before_cutoff_skipped:
  "chan_updated < 1583452800 * 1000000 \<Longrightarrow>
   clone_channel cfg env channel chan_updated channels_to_update st
     = (Inr channels_to_update, st)
   \<and> clone_loop cfg env ((channel, chan_updated) # rest) channels_to_update st
     = clone_loop cfg env rest channels_to_update st"
  by (simp add: clone_channel_old CLONE_SINCE_def)

theorem clone_channel_before_cutoff_skipped_witness:
  "(1583452799999999 :: int) < 1583452800 * 1000000
   \<and> clone_channel example_config example_env ''nixos-13.10'' 1583452799999999 []
        initial_state = (Inr [], initial_state)
   \<and> clone_loop example_config example_env [(''nixos-13.10'', 1583452799999999)] []
        initial_state = (Inr [], initial_state)"
  using clone_channel_before_cutoff_skipped
    [of 1583452799999999 example_config example_env "''nixos-13.10''" "[]" initial_state "[]"]
  by simp

text \<open>
  C6. When the live pointer of a channel already targets the release that upstream
  resolves the channel to, the pass of the loop of clone_channels for that channel
  only resolves the channel: the file system (so the live and the staged pointer) and
  the failure flag are as before, the one effect logged is the resolution of the
  channel (no manifest request, no download), and the channel is not added to the
  channels that update_channels will mirror.
\<close>

theorem clone_channel_live_is_noop:
  assumes "CLONE_SINCE \<le> chan_updated"
    and "get_object env channel = Inr chan_location"
    and "readlink (fs st) (pjoin (working_dir cfg) channel)
           = Some (RELEASES_DIR @ ''/'' @ channel @ ''@'' @ last (str_split ''/'' chan_location))"
  shows "\<exists>st'. clone_channel cfg env channel chan_updated channels_to_update st
                 = (Inr channels_to_update, st')
              \<and> fs st' = fs st \<and> failure st' = failure st
              \<and> trace st' = trace st @ [EvGetObject channel]"
  using clone_channel_live [of chan_updated env channel chan_location st cfg channels_to_update]
    assms
  by (simp add: external_def)

theorem clone_channel_live_is_noop_witness:
  "CLONE_SINCE \<le> 1700000000000000
   \<and> get_object example_env ''nixos-a'' = Inr ''https://releases.nixos.org/r1''
   \<and> readlink (fs live_state) (pjoin (working_dir example_config) ''nixos-a'')
       = Some (RELEASES_DIR @ ''/'' @ ''nixos-a'' @ ''@''
               @ last (str_split ''/'' ''https://releases.nixos.org/r1''))
   \<and> (\<exists>st'. clone_channel example_config example_env ''nixos-a'' 1700000000000000 []
               live_state = (Inr [], st')
            \<and> fs st' = fs live_state \<and> failure st' = failure live_state
            \<and> trace st' = trace live_state @ [EvGetObject ''nixos-a''])"
proof -
  have a: "CLONE_SINCE \<le> 1700000000000000"
    by (simp add: CLONE_SINCE_def)
  have b: "get_object example_env ''nixos-a'' = Inr ''https://releases.nixos.org/r1''"
    by (simp add: example_env_def)
  have c: "readlink (fs live_state) (pjoin (working_dir example_config) ''nixos-a'')
       = Some (RELEASES_DIR @ ''/'' @ ''nixos-a'' @ ''@''
               @ last (str_split ''/'' ''https://releases.nixos.org/r1''))"
    by (simp add: readlink_def live_state_def pjoin_def parts_def example_config_def
        RELEASES_DIR_def)
  from clone_channel_live_is_noop [OF a b c] a b c show ?thesis by blast
qed

section \<open>The fetcher: effects, retries and the failure flag\<close>

declare download_loop.simps [simp del]

lemma fs_emit: "fs (emit ev st) = apply_ev ev (fs st)"
  by (simp add: emit_def)

lemma failure_emit: "failure (emit ev st) = failure st"
  by (simp add: emit_def)

lemma tick_emit: "tick (emit ev st) = tick st"
  by (simp add: emit_def)

lemma trace_emit: "trace (emit ev st) = trace st @ [ev]"
  by (simp add: emit_def)

lemma fs_external: "fs (external ev st) = fs st"
  by (simp add: external_def)

lemma failure_external: "failure (external ev st) = failure st"
  by (simp add: external_def)

lemma tick_external: "tick (external ev st) = Suc (tick st)"
  by (simp add: external_def)

lemma trace_external: "trace (external ev st) = trace st @ [ev]"
  by (simp add: external_def)

lemma write_chunks_Nil: "write_chunks p [] st = st"
  by (simp add: write_chunks_def)

lemma write_chunks_Cons:
  "write_chunks p (c # cs) st =
     write_chunks p cs (if c \<noteq> [] then emit (EvWrite p c) st else st)"
  by (simp add: write_chunks_def)

lemma write_chunks_failure: "failure (write_chunks p cs st) = failure st"
  by (induction cs arbitrary: st) (simp_all add: write_chunks_Nil write_chunks_Cons failure_emit)

lemma write_chunks_tick: "tick (write_chunks p cs st) = tick st"
  by (induction cs arbitrary: st) (simp_all add: write_chunks_Nil write_chunks_Cons tick_emit)

lemma write_chunks_trace:
  "trace (write_chunks p cs st) = trace st @ map (EvWrite p) (filter (\<lambda>c. c \<noteq> []) cs)"
  by (induction cs arbitrary: st) (simp_all add: write_chunks_Nil write_chunks_Cons trace_emit)

lemma write_chunks_fs:
  "fs (write_chunks p cs st) = fold apply_ev (map (EvWrite p) (filter (\<lambda>c. c \<noteq> []) cs)) (fs st)"
  by (induction cs arbitrary: st) (simp_all add: write_chunks_Nil write_chunks_Cons fs_emit)

lemma write_chunks_content:
  "map_of (fs st) p = Some (File c) \<Longrightarrow>
   map_of (fs (write_chunks p cs st)) p = Some (File (c @ concat cs))"
  by (induction cs arbitrary: st c)
     (simp_all add: write_chunks_Nil write_chunks_Cons fs_emit update_conv')

lemma increment_never_None: "increment r e \<noteq> Inr None"
  by (simp add: increment_def Let_def)

lemma download_loop_failure:
  "failure (snd (download_loop env url download_dest retry st)) = failure st"
proof (induction env url download_dest retry st rule: download_loop.induct)
  case (1 env url download_dest retry st)
  show ?case
    apply (subst download_loop.simps)
    using 1
    apply (auto simp: http_get_def Let_def failure_external write_chunks_failure
        failure_emit increment_never_None
        split: http_outcome.splits option.splits sum.splits prod.splits)
    done
qed

lemma loggedI:
  "trace st' = trace st @ evs \<Longrightarrow> fs st' = fold apply_ev evs (fs st) \<Longrightarrow> list_all ok evs
   \<Longrightarrow> logged ok st st'"
  by (simp add: logged_def new_events_def)

lemma loggedD:
  "logged ok st st' \<Longrightarrow>
   trace st' = trace st @ new_events st st'
   \<and> fs st' = fold apply_ev (new_events st st') (fs st)
   \<and> list_all ok (new_events st st')"
  by (auto simp: logged_def new_events_def prefix_def)

lemma logged_refl: "logged ok st st"
  by (simp add: logged_def new_events_def)

lemma logged_trans:
  assumes "logged ok st st1" "logged ok st1 st2"
  shows "logged ok st st2"
proof -
  from loggedD [OF assms(1)] loggedD [OF assms(2)]
  have "trace st2 = trace st @ (new_events st st1 @ new_events st1 st2)"
    and "fs st2 = fold apply_ev (new_events st st1 @ new_events st1 st2) (fs st)"
    and "list_all ok (new_events st st1 @ new_events st1 st2)"
    by simp_all
  then show ?thesis by (rule loggedI)
qed

lemma new_events_trans:
  assumes "logged ok st st1" "logged ok' st1 st2"
  shows "new_events st st2 = new_events st st1 @ new_events st1 st2"
proof -
  from assms obtain a b where "trace st1 = trace st @ a" "trace st2 = trace st1 @ b"
    by (auto simp: logged_def prefix_def)
  then show ?thesis by (simp add: new_events_def)
qed

lemma logged_emit: "ok ev \<Longrightarrow> logged ok st (emit ev st)"
  by (rule loggedI [where evs = "[ev]"]) (simp_all add: emit_def)

lemma logged_external:
  "ok ev \<Longrightarrow> apply_ev ev = (\<lambda>f. f) \<Longrightarrow> logged ok st (external ev st)"
  by (rule loggedI [where evs = "[ev]"]) (simp_all add: external_def)

lemma logged_failure: "logged ok st st' \<Longrightarrow> logged ok st (st'\<lparr>failure := b\<rparr>)"
  by (simp add: logged_def new_events_def)

lemma logged_mono: "logged ok st st' \<Longrightarrow> (\<And>ev. ok ev \<Longrightarrow> ok' ev) \<Longrightarrow> logged ok' st st'"
  by (auto simp: logged_def list_all_iff)

lemma logged_write_chunks:
  "(\<And>c. ok (EvWrite p c)) \<Longrightarrow> logged ok st (write_chunks p cs st)"
  by (rule loggedI [where evs = "map (EvWrite p) (filter (\<lambda>c. c \<noteq> []) cs)"])
     (simp_all add: write_chunks_trace write_chunks_fs list_all_iff)

lemma logged_attempt:
  "logged (loop_event url p) st
     (write_chunks p cs (emit (EvOpenW p) (external (EvHttpGet url) st)))"
  by (intro logged_trans [OF logged_external logged_trans [OF logged_emit logged_write_chunks]])
     (auto simp: loop_event_def)

lemma download_loop_logged:
  "logged (loop_event url download_dest) st (snd (download_loop env url download_dest retry st))"
proof (induction env url download_dest retry st rule: download_loop.induct)
  case (1 env url download_dest retry st)
  let ?st1 = "external (EvHttpGet url) st"
  have a: "logged (loop_event url download_dest) st ?st1"
    by (rule logged_external) (auto simp: loop_event_def)
  show ?case
  proof (cases "http env (tick st) url")
    case (Raises e)
    with a show ?thesis
      by (subst download_loop.simps) (simp add: http_get_def)
  next
    case (Responds res)
    let ?st2 = "write_chunks download_dest (chunks res) (emit (EvOpenW download_dest) ?st1)"
    have b: "logged (loop_event url download_dest) st ?st2"
      by (rule logged_attempt)
    show ?thesis
    proof (cases "raise_for_status res")
      case (Some e)
      with a Responds show ?thesis
        by (subst download_loop.simps) (simp add: http_get_def)
    next
      case None
      show ?thesis
      proof (cases "attempt_error res (fs ?st2) download_dest")
        case None': None
        with b Responds None show ?thesis
          by (subst download_loop.simps) (simp add: http_get_def Let_def)
      next
        case (Some e)
        show ?thesis
        proof (cases "caught e")
          case False
          with b Responds None Some show ?thesis
            by (subst download_loop.simps) (simp add: http_get_def Let_def)
        next
          case True
          show ?thesis
          proof (cases "increment retry e")
            case (Inl e')
            with b Responds None Some True show ?thesis
              by (subst download_loop.simps) (simp add: http_get_def Let_def)
          next
            case (Inr nr)
            show ?thesis
            proof (cases nr)
              case None'': None
              with Inr show ?thesis by (simp add: increment_never_None)
            next
              case (Some next_retry)
              have "logged (loop_event url download_dest) ?st2
                      (snd (download_loop env url download_dest next_retry ?st2))"
                using "1.IH" [of "Responds res" ?st1 res ?st2 e nr next_retry]
                  Responds None \<open>attempt_error res (fs ?st2) download_dest = Some e\<close>
                  True Inr Some
                by (simp add: http_get_def)
              from logged_trans [OF b this] Responds None
                \<open>attempt_error res (fs ?st2) download_dest = Some e\<close> True Inr Some
              show ?thesis
                by (subst download_loop.simps) (simp add: http_get_def Let_def)
            qed
          qed
        qed
      qed
    qed
  qed
qed

lemma attempt_content:
  "map_of (fs (write_chunks p cs (emit (EvOpenW p) st))) p = Some (File (concat cs))"
  using write_chunks_content [of "emit (EvOpenW p) st" p "[]" cs]
  by (simp add: fs_emit update_conv')

lemma attempt_error_None:
  "attempt_error res files p = None \<Longrightarrow> map_of files p = Some (File c) \<Longrightarrow>
   stream_error res = None \<and> (\<forall>n. content_length res = Some n \<longrightarrow> n = length c)"
  by (auto simp: attempt_error_def file_size_def split: option.splits if_splits)

lemma download_loop_success:
  "download_loop env url download_dest retry st = (Inr u, st') \<Longrightarrow>
   \<exists>res t. http env t url = Responds res \<and> stream_error res = None
     \<and> (\<forall>n. content_length res = Some n \<longrightarrow> n = length (concat (chunks res)))
     \<and> map_of (fs st') download_dest = Some (File (concat (chunks res)))"
proof (induction env url download_dest retry st rule: download_loop.induct)
  case (1 env url download_dest retry st)
  from "1.prems" show ?case
    apply (subst (asm) download_loop.simps)
    apply (auto simp: http_get_def Let_def increment_never_None
        split: http_outcome.splits option.splits sum.splits prod.splits if_splits)
    subgoal for res
      apply (rule exI [of _ res])
      apply (frule attempt_error_None [OF _ attempt_content])
      apply (auto simp: attempt_content)
      done
    subgoal for res e next_retry
      using "1.IH" by (auto simp: http_get_def)
    done
qed

lemma str_split_no_sep: "CHR ''/'' \<notin> set s \<Longrightarrow> str_split ''/'' s = [s]"
  by (induction s) auto

lemma parts_single:
  "CHR ''/'' \<notin> set s \<Longrightarrow> s \<noteq> [] \<Longrightarrow> s \<noteq> ''.'' \<Longrightarrow> parts s = [s]"
  by (simp add: parts_def str_split_no_sep)

lemma temp_path_eq:
  assumes "dest \<noteq> []" "dest \<noteq> [''/'']" "CHR ''/'' \<notin> set (last dest)"
  shows "temp_path dest = butlast dest @ [''.'' @ last dest @ ''.tmp'']"
  using assms
  by (simp add: temp_path_def pjoin_def parent_def name_def parts_single)

lemma temp_path_neq:
  assumes "dest \<noteq> []" "dest \<noteq> [''/'']" "CHR ''/'' \<notin> set (last dest)"
  shows "temp_path dest \<noteq> dest"
proof
  assume "temp_path dest = dest"
  then have "last (temp_path dest) = last dest" by simp
  with assms have "''.'' @ last dest @ ''.tmp'' = last dest"
    by (simp add: temp_path_eq)
  then have "length (''.'' @ last dest @ ''.tmp'') = length (last dest)" by simp
  then show False by simp
qed

lemma mkdir_other:
  "p \<notin> set ds \<Longrightarrow>
   map_of (fold (\<lambda>d files. if map_of files d = None then AList.update d Dir files else files)
             ds files) p = map_of files p"
  by (induction ds arbitrary: files) (auto simp: update_conv')

lemma not_ancestor_butlast:
  assumes "dest \<noteq> []"
  shows "dest \<notin> set (ancestors (butlast dest))"
proof
  assume "dest \<in> set (ancestors (butlast dest))"
  then obtain k where "dest = take k (butlast dest)"
    by (auto simp: ancestors_def)
  then have "length dest = length (take k (butlast dest))" by simp
  with assms show False by (cases dest) (simp_all add: min_def split: if_splits)
qed

lemma apply_ev_leaves: "leaves p ev \<Longrightarrow> map_of (apply_ev ev files) p = map_of files p"
  by (cases ev) (auto simp: mkdir_other update_conv' delete_conv' split: option.splits node.splits)

lemma fold_apply_ev_leaves:
  "list_all (leaves p) evs \<Longrightarrow> map_of (fold apply_ev evs files) p = map_of files p"
  by (induction evs arbitrary: files) (simp_all add: apply_ev_leaves)

lemma loop_event_leaves: "p \<noteq> dest \<Longrightarrow> loop_event url p ev \<Longrightarrow> leaves dest ev"
  by (cases ev) (auto simp: loop_event_def)

lemma download_unfold:
  "download env url dest st =
     (case download_loop env url (temp_path dest) retries (emit (EvMkdir (parent dest)) st) of
        (Inl e, st1) \<Rightarrow> (Inl e, st1)
      | (Inr u, st1) \<Rightarrow> rename (temp_path dest) dest st1)"
  unfolding download_def temp_path_def Let_def ..

declare apply_ev.simps [simp del]

lemma new_events_eq: "trace st' = trace st @ evs \<Longrightarrow> new_events st st' = evs"
  by (simp add: new_events_def)

lemma fold_apply_ev_Cons: "fold apply_ev (ev # evs) files = fold apply_ev evs (apply_ev ev files)"
  by simp

lemma download_shape:
  assumes "download env url dest st = (r, st')"
  shows "\<exists>loop_evs.
           new_events st st'
             = EvMkdir (parent dest) # loop_evs
               @ (if r = Inr () then [EvRename (temp_path dest) dest] else [])
         \<and> list_all (loop_event url (temp_path dest)) loop_evs
         \<and> trace st' = trace st @ new_events st st'
         \<and> fs st' = fold apply_ev (new_events st st') (fs st)
         \<and> failure st' = failure st
         \<and> (r = Inr () \<longrightarrow>
              (\<exists>res t. http env t url = Responds res \<and> stream_error res = None
                 \<and> (\<forall>n. content_length res = Some n \<longrightarrow> n = length (concat (chunks res)))
                 \<and> map_of (fold apply_ev (EvMkdir (parent dest) # loop_evs) (fs st))
                      (temp_path dest) = Some (File (concat (chunks res)))))"
proof -
  let ?tmp = "temp_path dest"
  let ?st0 = "emit (EvMkdir (parent dest)) st"
  obtain r1 st1 where L: "download_loop env url ?tmp retries ?st0 = (r1, st1)"
    by (cases "download_loop env url ?tmp retries ?st0")
  have lg: "logged (loop_event url ?tmp) ?st0 st1"
    using download_loop_logged [of url ?tmp ?st0 env retries] L by simp
  let ?evs = "new_events ?st0 st1"
  from loggedD [OF lg] have t1: "trace st1 = trace st @ EvMkdir (parent dest) # ?evs"
    and f1: "fs st1 = fold apply_ev (EvMkdir (parent dest) # ?evs) (fs st)"
    and ok: "list_all (loop_event url ?tmp) ?evs"
    by (simp_all add: trace_emit fs_emit)
  have fl: "failure st1 = failure st"
    using download_loop_failure [of env url ?tmp retries ?st0] L by (simp add: failure_emit)
  show ?thesis
  proof (cases r1)
    case (Inl e)
    with L assms have "r = Inl e" "st' = st1"
      by (simp_all add: download_unfold)
    with t1 f1 ok fl new_events_eq [OF t1] show ?thesis
      by (intro exI [of _ ?evs]) simp
  next
    case (Inr u)
    with L download_loop_success [of env url ?tmp retries ?st0 u st1]
    obtain res t where res: "http env t url = Responds res" "stream_error res = None"
      "\<forall>n. content_length res = Some n \<longrightarrow> n = length (concat (chunks res))"
      "map_of (fs st1) ?tmp = Some (File (concat (chunks res)))"
      by auto
    with L Inr assms have "r = Inr ()" "st' = emit (EvRename ?tmp dest) st1"
      by (simp_all add: download_unfold rename_def)
    moreover from this t1
    have "new_events st st' = EvMkdir (parent dest) # ?evs @ [EvRename ?tmp dest]"
      by (intro new_events_eq) (simp add: trace_emit)
    ultimately show ?thesis
      using t1 f1 ok fl res
      by (intro exI [of _ ?evs]) (auto simp: trace_emit fs_emit failure_emit)
  qed
qed

text \<open>
  C5. For a destination whose last component is a file name, download writes response
  bytes only to the hidden sibling \<open>.name.tmp\<close> in the directory of the destination:
  the effects of a call are the creation of the parent directories, then requests and
  openings of and writes to that temporary path, then, only when the call succeeds,
  one rename of the temporary path onto the destination as the last effect. The
  temporary path differs from the destination. Replaying any proper prefix of the
  effects (and all of them when the call fails) leaves what is at the destination as
  it was; after a successful call the destination holds the whole body of a response
  that ended without error and whose declared length, if any, is the number of bytes
  written. So the destination never holds a partly written file.
\<close>

theorem download_atomic:
  assumes "dest \<noteq> []" and "dest \<noteq> [''/'']" and "CHR ''/'' \<notin> set (last dest)"
    and "download env url dest st = (r, st')"
  shows "temp_path dest = butlast dest @ [''.'' @ last dest @ ''.tmp'']
       \<and> temp_path dest \<noteq> dest
       \<and> trace st' = trace st @ new_events st st'
       \<and> fs st' = fold apply_ev (new_events st st') (fs st)
       \<and> (\<exists>loop_evs.
             new_events st st'
               = EvMkdir (parent dest) # loop_evs
                 @ (if r = Inr () then [EvRename (temp_path dest) dest] else [])
             \<and> list_all (loop_event url (temp_path dest)) loop_evs)
       \<and> (\<forall>k. k < length (new_events st st') \<or> r \<noteq> Inr () \<longrightarrow>
             map_of (fold apply_ev (take k (new_events st st')) (fs st)) dest
               = map_of (fs st) dest)
       \<and> (r = Inr () \<longrightarrow>
             (\<exists>res t. http env t url = Responds res \<and> stream_error res = None
                \<and> (\<forall>n. content_length res = Some n \<longrightarrow> n = length (concat (chunks res)))
                \<and> map_of (fs st') dest = Some (File (concat (chunks res)))))"
proof -
  let ?tmp = "temp_path dest"
  let ?mk = "EvMkdir (parent dest)"
  have ne: "?tmp \<noteq> dest" by (rule temp_path_neq [OF assms(1-3)])
  from download_shape [OF assms(4)] obtain loop_evs where
    ev: "new_events st st'
           = ?mk # loop_evs @ (if r = Inr () then [EvRename ?tmp dest] else [])"
    and ok: "list_all (loop_event url ?tmp) loop_evs"
    and tr: "trace st' = trace st @ new_events st st'"
    and fs': "fs st' = fold apply_ev (new_events st st') (fs st)"
    and su: "r = Inr () \<longrightarrow>
              (\<exists>res t. http env t url = Responds res \<and> stream_error res = None
                 \<and> (\<forall>n. content_length res = Some n \<longrightarrow> n = length (concat (chunks res)))
                 \<and> map_of (fold apply_ev (?mk # loop_evs) (fs st)) ?tmp
                      = Some (File (concat (chunks res))))"
    by blast
  have "leaves dest ?mk"
    using not_ancestor_butlast [OF assms(1)] assms(2) by (simp add: parent_def)
  moreover have "list_all (leaves dest) loop_evs"
    using ok loop_event_leaves [OF ne] by (auto simp: list_all_iff)
  ultimately have lv: "list_all (leaves dest) (?mk # loop_evs)" by simp
  have inv: "map_of (fold apply_ev (take k (new_events st st')) (fs st)) dest
               = map_of (fs st) dest"
    if "k < length (new_events st st') \<or> r \<noteq> Inr ()" for k
  proof -
    from ev have "new_events st st'
                    = (?mk # loop_evs) @ (if r = Inr () then [EvRename ?tmp dest] else [])"
      by simp
    with that have "take k (new_events st st') = take k (?mk # loop_evs)"
      by (simp only: take_append) (auto split: if_splits)
    moreover have "list_all (leaves dest) (take k (?mk # loop_evs))"
      using lv unfolding list_all_iff by (blast dest: in_set_takeD)
    ultimately show ?thesis by (simp add: fold_apply_ev_leaves)
  qed
  have fin: "\<exists>res t. http env t url = Responds res \<and> stream_error res = None
                \<and> (\<forall>n. content_length res = Some n \<longrightarrow> n = length (concat (chunks res)))
                \<and> map_of (fs st') dest = Some (File (concat (chunks res)))"
    if "r = Inr ()"
  proof -
    from su that obtain res t where res: "http env t url = Responds res"
      "stream_error res = None"
      "\<forall>n. content_length res = Some n \<longrightarrow> n = length (concat (chunks res))"
      "map_of (fold apply_ev (?mk # loop_evs) (fs st)) ?tmp = Some (File (concat (chunks res)))"
      by blast
    from that ev fs' have "fs st' = apply_ev (EvRename ?tmp dest) (fold apply_ev (?mk # loop_evs) (fs st))"
      by simp
    with res(4) have "map_of (fs st') dest = Some (File (concat (chunks res)))"
      by (simp add: update_conv' apply_ev.simps)
    with res(1-3) show ?thesis by blast
  qed
  from temp_path_eq [OF assms(1-3)] ne tr fs' ev ok inv fin show ?thesis
    by blast
qed

theorem download_atomic_witness:
  "[''/'', ''srv'', ''store'', ''x''] \<noteq> []
   \<and> [''/'', ''srv'', ''store'', ''x''] \<noteq> [''/'']
   \<and> CHR ''/'' \<notin> set (last [''/'', ''srv'', ''store'', ''x''])
   \<and> fst (download serving_env ''u'' [''/'', ''srv'', ''store'', ''x''] initial_state) = Inr ()
   \<and> temp_path [''/'', ''srv'', ''store'', ''x''] = [''/'', ''srv'', ''store'', ''.x.tmp'']
   \<and> new_events initial_state
        (snd (download serving_env ''u'' [''/'', ''srv'', ''store'', ''x''] initial_state))
      = [EvMkdir [''/'', ''srv'', ''store''], EvHttpGet ''u'',
         EvOpenW [''/'', ''srv'', ''store'', ''.x.tmp''],
         EvWrite [''/'', ''srv'', ''store'', ''.x.tmp''] ''ab'',
         EvWrite [''/'', ''srv'', ''store'', ''.x.tmp''] ''c'',
         EvRename [''/'', ''srv'', ''store'', ''.x.tmp''] [''/'', ''srv'', ''store'', ''x'']]
   \<and> map_of (fold apply_ev
              (take 5 (new_events initial_state
                 (snd (download serving_env ''u'' [''/'', ''srv'', ''store'', ''x'']
                         initial_state))))
              (fs initial_state)) [''/'', ''srv'', ''store'', ''x''] = None
   \<and> map_of (fs (snd (download serving_env ''u'' [''/'', ''srv'', ''store'', ''x'']
                        initial_state))) [''/'', ''srv'', ''store'', ''x'']
      = Some (File ''abc'')"
proof -
  let ?dest = "[''/'', ''srv'', ''store'', ''x'']"
  let ?run = "download serving_env ''u'' ?dest initial_state"
  have h1: "?dest \<noteq> []" and h2: "?dest \<noteq> [''/'']" and h3: "CHR ''/'' \<notin> set (last ?dest)"
    by simp_all
  have r: "fst ?run = Inr ()"
    by code_simp
  have ev: "new_events initial_state (snd ?run)
      = [EvMkdir [''/'', ''srv'', ''store''], EvHttpGet ''u'',
         EvOpenW [''/'', ''srv'', ''store'', ''.x.tmp''],
         EvWrite [''/'', ''srv'', ''store'', ''.x.tmp''] ''ab'',
         EvWrite [''/'', ''srv'', ''store'', ''.x.tmp''] ''c'',
         EvRename [''/'', ''srv'', ''store'', ''.x.tmp''] [''/'', ''srv'', ''store'', ''x'']]"
    by code_simp
  have c: "map_of (fs (snd ?run)) ?dest = Some (File ''abc'')"
    by code_simp
  have run: "?run = (fst ?run, snd ?run)" by simp
  note a = download_atomic [OF h1 h2 h3 run]
  from a have t: "temp_path ?dest = [''/'', ''srv'', ''store'', ''.x.tmp'']" by simp
  have len: "length (new_events initial_state (snd ?run)) = 6"
    by (simp only: ev) simp
  have f0: "map_of (fs initial_state) ?dest = None"
    by (simp add: initial_state_def)
  from a have "\<forall>k. k < length (new_events initial_state (snd ?run)) \<longrightarrow>
      map_of (fold apply_ev (take k (new_events initial_state (snd ?run))) (fs initial_state))
        ?dest = map_of (fs initial_state) ?dest"
    by blast
  then have inv: "map_of (fold apply_ev (take 5 (new_events initial_state (snd ?run)))
      (fs initial_state)) ?dest = None"
    unfolding len f0 by simp
  from h1 h2 h3 r t ev inv c show ?thesis by blast
qed

lemma download_keeps_failure: "failure (snd (download env url dest st)) = failure st"
proof -
  have "download env url dest st
          = (fst (download env url dest st), snd (download env url dest st))"
    by simp
  from download_shape [OF this] show ?thesis by blast
qed

lemma download_loop_exhausts:
  assumes "\<And>t. http env t url = Responds res" and "raise_for_status res = None"
    and "stream_error res = Some e" and "caught e"
  shows "0 \<le> total retry \<Longrightarrow>
         fst (download_loop env url p retry st) = Inl (MaxRetryError e)
         \<and> tick (snd (download_loop env url p retry st)) = tick st + nat (total retry) + 1"
proof (induction "nat (total retry)" arbitrary: retry st)
  case 0
  then have "total retry = 0" by simp
  with assms show ?case
    by (subst (1 2) download_loop.simps)
       (simp add: http_get_def attempt_error_def increment_def Let_def write_chunks_tick
          tick_emit tick_external)
next
  case (Suc n)
  let ?r = "retry\<lparr>total := total retry - 1\<rparr>"
  from Suc.hyps(2) Suc.prems have pos: "0 < total retry" and n: "n = nat (total ?r)"
    by simp_all
  from pos have "0 \<le> total ?r" by simp
  from Suc.hyps(1) [OF n this] pos assms show ?case
    by (subst (1 2) download_loop.simps)
       (simp add: http_get_def attempt_error_def increment_def Let_def write_chunks_tick
          tick_emit tick_external nat_diff_distrib)
qed


lemma download_loop_fails:
  assumes "fst (download_loop env url (temp_path dest) retries
                  (emit (EvMkdir (parent dest)) st)) = Inl e"
  shows "download env url dest st
           = (Inl e, snd (download_loop env url (temp_path dest) retries
                            (emit (EvMkdir (parent dest)) st)))"
  using assms
  by (cases "download_loop env url (temp_path dest) retries (emit (EvMkdir (parent dest)) st)")
     (simp add: download_unfold)

lemma download_stream_errors:
  assumes "\<And>t. http env t url = Responds res" and "raise_for_status res = None"
    and "stream_error res = Some e" and "caught e"
  shows "fst (download env url dest st) = Inl (MaxRetryError e)
         \<and> tick (snd (download env url dest st)) = tick st + 6
         \<and> failure (snd (download env url dest st)) = failure st"
proof -
  have "0 \<le> total retries" by (simp add: retries_def)
  from download_loop_exhausts [OF assms this, of "temp_path dest" "emit (EvMkdir (parent dest)) st"]
  have l: "fst (download_loop env url (temp_path dest) retries (emit (EvMkdir (parent dest)) st))
             = Inl (MaxRetryError e)"
    and t: "tick (snd (download_loop env url (temp_path dest) retries
                         (emit (EvMkdir (parent dest)) st))) = tick st + 6"
    by (simp_all add: retries_def tick_emit)
  from download_loop_fails [OF l] t download_keeps_failure [of env url dest st]
  show ?thesis by simp
qed

lemma download_connect_error:
  assumes "\<And>t. http env t url = Raises e"
  shows "fst (download env url dest st) = Inl e
         \<and> tick (snd (download env url dest st)) = tick st + 1
         \<and> failure (snd (download env url dest st)) = failure st"
proof -
  have "download_loop env url (temp_path dest) retries (emit (EvMkdir (parent dest)) st)
          = (Inl e, external (EvHttpGet url) (emit (EvMkdir (parent dest)) st))"
    by (subst download_loop.simps) (simp add: http_get_def assms)
  then have "download env url dest st
          = (Inl e, external (EvHttpGet url) (emit (EvMkdir (parent dest)) st))"
    by (simp add: download_unfold)
  then show ?thesis
    by (simp add: tick_external tick_emit failure_external failure_emit)
qed

text \<open>
  C3, the code at the failing inputs. Against a server that breaks every response
  with a connection error, download makes six requests, raises MaxRetryError (not the
  connection error) and leaves the failure flag as it was. Against a server that
  refuses every connection, so that \<open>http_get\<close> itself raises the connection error,
  download makes one request, raises that error and leaves the flag as it was.
\<close>

theorem download_exhaustion_evaluated:
  "fst (download flaky_env ''u'' [''/'', ''srv'', ''store'', ''x''] initial_state)
     = Inl (MaxRetryError ConnectionError)
   \<and> tick (snd (download flaky_env ''u'' [''/'', ''srv'', ''store'', ''x''] initial_state)) = 6
   \<and> failure (snd (download flaky_env ''u'' [''/'', ''srv'', ''store'', ''x''] initial_state))
       = False
   \<and> fst (download example_env ''u'' [''/'', ''srv'', ''store'', ''x''] initial_state)
       = Inl ConnectionError
   \<and> tick (snd (download example_env ''u'' [''/'', ''srv'', ''store'', ''x''] initial_state)) = 1
   \<and> failure (snd (download example_env ''u'' [''/'', ''srv'', ''store'', ''x''] initial_state))
       = False"
proof -
  let ?res = "\<lparr>status_code = 200, content_length = None, chunks = [''ab''],
       stream_error = Some ConnectionError, page_tagline = [], page_rows = []\<rparr>"
  have a: "\<And>t. http flaky_env t ''u'' = Responds ?res"
    by (simp add: flaky_env_def)
  have b: "raise_for_status ?res = None"
    by (simp add: raise_for_status_def)
  have c: "\<And>t. http example_env t ''u'' = Raises ConnectionError"
    by (simp add: example_env_def)
  have i: "tick initial_state = 0" "failure initial_state = False"
    by (simp_all add: initial_state_def)
  from download_stream_errors [of flaky_env "''u''" ?res ConnectionError
      "[''/'', ''srv'', ''store'', ''x'']" initial_state, OF a b]
    download_connect_error [of example_env "''u''" ConnectionError
      "[''/'', ''srv'', ''store'', ''x'']" initial_state, OF c]
  show ?thesis by (simp add: i)
qed

section \<open>The Release Publisher: marker and staged pointer\<close>






lemma existing_file_present:
  "path_exists files p \<Longrightarrow> file_sha256 env files (deref files p) = Inr file_hash \<Longrightarrow>
   existing_file env files p file_hash = Inr True"
  by (simp add: existing_file_def)




lemma write_text_failure: "failure (write_text p s st) = failure st"
  by (simp add: write_text_def failure_emit)


lemma unlink_events:
  "unlink env p st = (r, st') \<Longrightarrow> trace st' = trace st \<or> trace st' = trace st @ [EvUnlink p]"
  by (auto simp: unlink_def trace_emit split: if_splits)














section \<open>The Bulk Mirror Engine: batches and the oracle\<close>

declare batches.simps [simp del]






lemma oracle_loop_log:
  "oracle_loop env store bs todo seen_paths st = (failed, todo', st') \<Longrightarrow>
   \<exists>k \<le> length bs.
     trace st' = trace st @ map (EvOracle store) (take k bs)
     \<and> tick st' = tick st + k \<and> fs st' = fs st \<and> failure st' = failure st
     \<and> (\<not> failed \<longrightarrow> k = length bs)
     \<and> (failed \<longrightarrow> 0 < k)"
proof (induction bs arbitrary: todo seen_paths st)
  case Nil
  then show ?case by auto
next
  case (Cons batch rest)
  obtain returncode infos where o: "path_info_json env (tick st) store batch = (returncode, infos)"
    by (cases "path_info_json env (tick st) store batch")
  show ?case
  proof (cases "returncode = 0")
    case False
    with o Cons.prems show ?thesis
      by (intro exI [of _ 1]) (auto simp: external_def)
  next
    case True
    obtain todo1 seen1 where f: "fold add_info infos (todo, seen_paths) = (todo1, seen1)"
      by (cases "fold add_info infos (todo, seen_paths)")
    let ?st1 = "external (EvOracle store batch) st"
    from o True f Cons.prems
    have "oracle_loop env store rest todo1 seen1 ?st1 = (failed, todo', st')"
      by simp
    from Cons.IH [OF this] obtain k where k: "k \<le> length rest"
      "trace st' = trace ?st1 @ map (EvOracle store) (take k rest)"
      "tick st' = tick ?st1 + k" "fs st' = fs ?st1" "failure st' = failure ?st1"
      "\<not> failed \<longrightarrow> k = length rest" "failed \<longrightarrow> 0 < k"
      by blast
    then show ?thesis
      by (intro exI [of _ "Suc k"]) (auto simp: external_def)
  qed
qed







section \<open>The cache priority rewrite\<close>








section \<open>The failure flag and the exit code\<close>

lemma fold_emit_failure:
  "failure (fold (\<lambda>x st. emit (f x) st) xs st) = failure st"
  by (induction xs arbitrary: st) (simp_all add: failure_emit)

lemma save_sync_stats_failure: "failure (save_sync_stats cfg channel todo st) = failure st"
  by (simp add: save_sync_stats_def Let_def fold_emit_failure failure_emit write_text_failure)

lemma rename_failure: "failure (snd (rename src dst st)) = failure st"
  by (simp add: rename_def failure_emit)

lemma fetch_cache_info_failure:
  "failure (snd (fetch_cache_info cfg env upstream_binary_cache st)) = failure st"
proof -
  have k: "failure (snd (download env url dest st)) = failure st" for url dest
    by (rule download_keeps_failure)
  show ?thesis
    unfolding fetch_cache_info_def Let_def
    using k [of "upstream_binary_cache @ ''/'' @ ''nix-cache-info''"
        "pjoin (pjoin (working_dir cfg) STORE_DIR) ''nix-cache-info''"]
    by (auto split: prod.splits sum.splits simp: write_text_failure)
qed

lemma try_mirror_failure:
  "failure (snd (try_mirror cfg env upstream_binary_cache paths st)) = failure st"
proof (induction paths arbitrary: st)
  case Nil
  show ?case by simp
next
  case (Cons path paths)
  let ?url = "upstream_binary_cache @ ''/'' @ path"
  let ?dest = "pjoin (pjoin (working_dir cfg) STORE_DIR) path"
  show ?case
  proof (cases "path_exists (fs st) ?dest")
    case True
    then have "try_mirror cfg env upstream_binary_cache (path # paths) st
                 = try_mirror cfg env upstream_binary_cache paths st"
      by (simp add: Let_def)
    then show ?thesis by (simp only: Cons.IH)
  next
    case False
    obtain d st1 where dl: "download env ?url ?dest st = (d, st1)"
      by (cases "download env ?url ?dest st")
    with download_keeps_failure [of env ?url ?dest st]
    have f1: "failure st1 = failure st" by simp
    show ?thesis
    proof (cases d)
      case (Inl e)
      with False dl have "snd (try_mirror cfg env upstream_binary_cache (path # paths) st) = st1"
        by (simp add: Let_def)
      with f1 show ?thesis by simp
    next
      case (Inr u)
      with False dl have "try_mirror cfg env upstream_binary_cache (path # paths) st
                            = try_mirror cfg env upstream_binary_cache paths st1"
        by (simp add: Let_def)
      then show ?thesis by (simp only: Cons.IH f1)
    qed
  qed
qed

lemma run_jobs_failure:
  "failure (snd (run_jobs cfg env upstream_binary_cache jobs st)) = failure st"
proof (induction jobs arbitrary: st)
  case Nil
  show ?case by simp
next
  case (Cons job jobs)
  obtain r st1 where t: "try_mirror cfg env upstream_binary_cache job st = (r, st1)"
    by (cases "try_mirror cfg env upstream_binary_cache job st")
  with try_mirror_failure [of cfg env upstream_binary_cache job st]
  have f1: "failure st1 = failure st" by simp
  obtain rs st2 where j: "run_jobs cfg env upstream_binary_cache jobs st1 = (rs, st2)"
    by (cases "run_jobs cfg env upstream_binary_cache jobs st1")
  with Cons.IH [of st1] f1 have "failure st2 = failure st" by simp
  with t j show ?case by simp
qed

lemma mirror_jobs_failure:
  "failure (snd (mirror_jobs cfg env channel upstream_binary_cache todo st)) = failure st"
  using run_jobs_failure [of cfg env upstream_binary_cache todo "save_sync_stats cfg channel todo st"]
  by (auto simp: mirror_jobs_def save_sync_stats_failure split: prod.splits sum.splits)

lemma oracle_loop_failure:
  "failure (snd (snd (oracle_loop env store bs todo seen_paths st))) = failure st"
proof -
  obtain failed todo' st' where "oracle_loop env store bs todo seen_paths st = (failed, todo', st')"
    by (cases "oracle_loop env store bs todo seen_paths st")
  with oracle_loop_log [OF this] show ?thesis by auto
qed

lemma mirror_paths_failure:
  "failure (snd (mirror_paths cfg env channel upstream_binary_cache paths st)) = failure st"
proof (cases "range_batches (PATH_BATCH cfg) paths")
  case (Inl e)
  then show ?thesis by (simp add: mirror_paths_def Let_def)
next
  case (Inr bs)
  obtain failed todo st1 where o: "oracle_loop env upstream_binary_cache bs [] [] st
                                     = (failed, todo, st1)"
    by (cases "oracle_loop env upstream_binary_cache bs [] [] st")
  with oracle_loop_failure [of env upstream_binary_cache bs "[]" "[]" st]
  have f1: "failure st1 = failure st" by simp
  show ?thesis
  proof (cases failed)
    case True
    with Inr o f1 show ?thesis by (simp add: mirror_paths_def Let_def)
  next
    case False
    obtain r st2 where m: "mirror_jobs cfg env channel upstream_binary_cache todo st1 = (r, st2)"
      by (cases "mirror_jobs cfg env channel upstream_binary_cache todo st1")
    with mirror_jobs_failure [of cfg env channel upstream_binary_cache todo st1] f1
    have f2: "failure st2 = failure st" by simp
    from Inr o False m f2
      rename_failure [of "pjoin (working_dir cfg) (''.'' @ channel @ ''.update'')"
        "pjoin (working_dir cfg) channel" st2]
    show ?thesis
      by (auto simp: mirror_paths_def Let_def split: sum.splits prod.splits)
  qed
qed

lemma update_channel_failure:
  "failure (snd (update_channel cfg env channel has_cache_info st)) = failure st"
proof -
  let ?link = "pjoin (working_dir cfg) (''.'' @ channel @ ''.update'')"
  show ?thesis
  proof (cases "read_text (fs st) (pjoin (deref (fs st) ?link) ''.original-binary-cache-url'')")
    case (Inl e)
    then show ?thesis by (simp add: update_channel_def Let_def)
  next
    case (Inr body)
    let ?up = "rstrip_pred (\<lambda>c. c = CHR ''/'') body"
    obtain r1 st1 where c: "(if \<not> has_cache_info then fetch_cache_info cfg env ?up st
                             else (Inr (), st)) = (r1, st1)"
      by (cases "if \<not> has_cache_info then fetch_cache_info cfg env ?up st else (Inr (), st)")
    have f1: "failure st1 = failure st"
    proof (cases has_cache_info)
      case True
      with c show ?thesis by simp
    next
      case False
      with c have "st1 = snd (fetch_cache_info cfg env ?up st)" by simp
      then show ?thesis by (simp add: fetch_cache_info_failure)
    qed
    show ?thesis
    proof (cases r1)
      case (Inl e)
      with Inr c f1 show ?thesis by (simp add: update_channel_def Let_def)
    next
      case r: (Inr u)
      show ?thesis
      proof (cases "store_paths env (fs st1) (pjoin (deref (fs st1) ?link) ''store-paths.xz'')")
        case (Inl e)
        with Inr c r f1 show ?thesis by (simp add: update_channel_def Let_def)
      next
        case p: (Inr paths)
        with Inr c r have "update_channel cfg env channel has_cache_info st
                             = mirror_paths cfg env channel ?up paths st1"
          by (simp add: update_channel_def Let_def)
        with f1 show ?thesis by (simp add: mirror_paths_failure)
      qed
    qed
  qed
qed

lemma update_loop_failure:
  "failure (snd (update_loop cfg env channels has_cache_info st)) = failure st"
proof (induction channels arbitrary: has_cache_info st)
  case Nil
  show ?case by simp
next
  case (Cons channel channels)
  show ?case
    using Cons.IH update_channel_failure [of cfg env channel has_cache_info st]
    by (auto split: prod.splits sum.splits)
qed

lemma update_channels_keeps_failure:
  "failure (snd (update_channels cfg env channels st)) = failure st"
  by (simp add: update_channels_def update_loop_failure)

lemma main_exit_code:
  "\<not> COLLECT_GARBAGE cfg \<Longrightarrow>
   (fst (main cfg env st) \<noteq> 0) = failure (snd (main cfg env st))"
  by (simp add: main_def Let_def)


lemma oracle_down_clone:
  "clone_channels example_config oracle_down_env staged_state
   = (Inr [''nixos-23.11-small''], resolved_state)"
  by code_simp

lemma oracle_down_update:
  "update_channels example_config oracle_down_env [''nixos-23.11-small''] resolved_state
   = (Inr (),
      resolved_state\<lparr>fs := fs resolved_state @
          [([''/'', ''srv'', ''mirror'', ''store''], Dir),
           ([''/'', ''srv'', ''mirror'', ''store'', ''nix-cache-info''], File ''Priority: 10'')],
        tick := 4,
        trace := trace resolved_state @
          [EvMkdir [''/'', ''srv'', ''mirror'', ''store''],
           EvHttpGet ''https://cache.nixos.org/nix-cache-info'',
           EvOpenW [''/'', ''srv'', ''mirror'', ''store'', ''.nix-cache-info.tmp''],
           EvWrite [''/'', ''srv'', ''mirror'', ''store'', ''.nix-cache-info.tmp'']
             ''Priority: 40'',
           EvRename [''/'', ''srv'', ''mirror'', ''store'', ''.nix-cache-info.tmp'']
             [''/'', ''srv'', ''mirror'', ''store'', ''nix-cache-info''],
           EvOpenW [''/'', ''srv'', ''mirror'', ''store'', ''nix-cache-info''],
           EvWrite [''/'', ''srv'', ''mirror'', ''store'', ''nix-cache-info''] ''Priority: 10'',
           EvOracle ''https://cache.nixos.org'' [''/nix/store/aaa-x'']]\<rparr>)"
  by code_simp

lemma oracle_down_main:
  "main example_config oracle_down_env staged_state
   = (0, snd (update_channels example_config oracle_down_env [''nixos-23.11-small'']
                resolved_state))"
proof -
  have g: "\<not> COLLECT_GARBAGE example_config"
    by (simp add: example_config_def)
  have f: "\<not> failure resolved_state"
    by (simp add: resolved_state_def staged_state_def)
  have s: "sync example_config oracle_down_env staged_state
             = snd (update_channels example_config oracle_down_env [''nixos-23.11-small'']
                      resolved_state)"
  proof -
    have "sync example_config oracle_down_env staged_state
            = (case update_channels example_config oracle_down_env [''nixos-23.11-small'']
                      resolved_state of
                 (Inl e, st2) \<Rightarrow> st2\<lparr>failure := True\<rparr>
               | (Inr u, st2) \<Rightarrow> st2)"
      by (simp add: sync_def oracle_down_clone)
    also have "\<dots> = snd (update_channels example_config oracle_down_env
                            [''nixos-23.11-small''] resolved_state)"
      by (simp only: oracle_down_update prod.case sum.case snd_conv)
    finally show ?thesis .
  qed
  show ?thesis
    unfolding main_def Let_def s using g f
    by (simp add: update_channels_keeps_failure)
qed

lemma jobs_refused_clone:
  "clone_channels no_stats_config jobs_refused_env staged_state
   = (Inr [''nixos-23.11-small''], resolved_state)"
  by code_simp

lemma jobs_refused_update:
  "fst (update_channels no_stats_config jobs_refused_env [''nixos-23.11-small'']
          resolved_state) = Inr ()"
  by code_simp

lemma jobs_refused_main:
  "main no_stats_config jobs_refused_env staged_state
   = (0, snd (update_channels no_stats_config jobs_refused_env [''nixos-23.11-small'']
                resolved_state))"
proof -
  have g: "\<not> COLLECT_GARBAGE no_stats_config"
    by (simp add: no_stats_config_def example_config_def)
  have f: "\<not> failure resolved_state"
    by (simp add: resolved_state_def staged_state_def)
  have u: "update_channels no_stats_config jobs_refused_env [''nixos-23.11-small''] resolved_state
             = (Inr (), snd (update_channels no_stats_config jobs_refused_env
                               [''nixos-23.11-small''] resolved_state))"
    using jobs_refused_update by (metis prod.collapse)
  have s: "sync no_stats_config jobs_refused_env staged_state
             = snd (update_channels no_stats_config jobs_refused_env [''nixos-23.11-small'']
                      resolved_state)"
  proof -
    have "sync no_stats_config jobs_refused_env staged_state
            = (case update_channels no_stats_config jobs_refused_env [''nixos-23.11-small'']
                      resolved_state of
                 (Inl e, st2) \<Rightarrow> st2\<lparr>failure := True\<rparr>
               | (Inr u, st2) \<Rightarrow> st2)"
      by (simp add: sync_def jobs_refused_clone)
    also have "\<dots> = snd (update_channels no_stats_config jobs_refused_env
                            [''nixos-23.11-small''] resolved_state)"
      by (subst u) (simp only: prod.case sum.case)
    finally show ?thesis .
  qed
  show ?thesis
    unfolding main_def Let_def s using g f
    by (simp add: update_channels_keeps_failure)
qed

text \<open>
  C2, the code at the failing inputs. The channel nixos-23.11-small is staged at
  release r1 and garbage collection is off. In the first run \<open>nix path-info\<close> exits
  with code 1 on the only batch: the oracle call is the last effect of the run, the
  staged pointer is not promoted, the failure flag is still unset and the exit code
  is 0. In the second run (statistics off) the oracle lists one artifact and the cache
  refuses the connection for it, so the job fails: the request is the last effect of the run, the
  staged pointer is not promoted, the failure flag is still unset and the exit code
  is 0.
\<close>

theorem failures_without_flag_evaluated:
  "path_info_json oracle_down_env 3 ''https://cache.nixos.org'' [''/nix/store/aaa-x'']
     = (1, [])
   \<and> fst (main example_config oracle_down_env staged_state) = 0
   \<and> failure (snd (main example_config oracle_down_env staged_state)) = False
   \<and> last (trace (snd (main example_config oracle_down_env staged_state)))
       = EvOracle ''https://cache.nixos.org'' [''/nix/store/aaa-x'']
   \<and> tick (snd (main example_config oracle_down_env staged_state)) = 4
   \<and> map_of (fs (snd (main example_config oracle_down_env staged_state)))
        [''/'', ''srv'', ''mirror'', ''nixos-23.11-small''] = None
   \<and> http jobs_refused_env 4 ''https://cache.nixos.org/nar/aaa.nar.xz''
       = Raises ConnectionError
   \<and> fst (main no_stats_config jobs_refused_env staged_state) = 0
   \<and> failure (snd (main no_stats_config jobs_refused_env staged_state)) = False
   \<and> last (trace (snd (main no_stats_config jobs_refused_env staged_state)))
       = EvHttpGet ''https://cache.nixos.org/nar/aaa.nar.xz''
   \<and> tick (snd (main no_stats_config jobs_refused_env staged_state)) = 5
   \<and> map_of (fs (snd (main no_stats_config jobs_refused_env staged_state)))
        [''/'', ''srv'', ''mirror'', ''nixos-23.11-small''] = None"
proof -
  let ?live = "[''/'', ''srv'', ''mirror'', ''nixos-23.11-small'']"
  let ?o = "snd (update_channels example_config oracle_down_env [''nixos-23.11-small'']
                   resolved_state)"
  let ?j = "snd (update_channels no_stats_config jobs_refused_env [''nixos-23.11-small'']
                   resolved_state)"
  have f: "\<not> failure resolved_state"
    by (simp add: resolved_state_def staged_state_def)
  have a: "path_info_json oracle_down_env 3 ''https://cache.nixos.org'' [''/nix/store/aaa-x'']
             = (1, [])"
    by (simp add: oracle_down_env_def)
  have o1: "last (trace ?o) = EvOracle ''https://cache.nixos.org'' [''/nix/store/aaa-x'']"
    unfolding oracle_down_update by simp
  have o2: "tick ?o = 4"
    unfolding oracle_down_update by simp
  have o3: "map_of (fs ?o) ?live = None"
    unfolding oracle_down_update by (simp add: resolved_state_def staged_state_def)
  have b: "http jobs_refused_env 4 ''https://cache.nixos.org/nar/aaa.nar.xz''
             = Raises ConnectionError"
    by (simp add: jobs_refused_env_def)
  have j1: "last (trace ?j) = EvHttpGet ''https://cache.nixos.org/nar/aaa.nar.xz''"
    by code_simp
  have j2: "tick ?j = 5"
    by code_simp
  have j3: "map_of (fs ?j) ?live = None"
    by code_simp
  have m1: "fst (main example_config oracle_down_env staged_state) = 0"
    and m2: "snd (main example_config oracle_down_env staged_state) = ?o"
    unfolding oracle_down_main by simp_all
  have n1: "fst (main no_stats_config jobs_refused_env staged_state) = 0"
    and n2: "snd (main no_stats_config jobs_refused_env staged_state) = ?j"
    unfolding jobs_refused_main by simp_all
  have fo: "failure ?o = False"
    using f by (simp only: update_channels_keeps_failure)
  have fj: "failure ?j = False"
    using f by (simp only: update_channels_keeps_failure)
  show ?thesis
    unfolding m2 n2
    by (intro conjI) (rule a m1 fo o1 o2 o3 b n1 fj j1 j2 j3)+
qed

end
